theory Spec2Isabelle
  imports Main "HOL-Library.Sublist" "HOL-Library.Multiset"
begin

section \<open>Python text primitives used by \<open>analyze_logs.py\<close>\<close>

text \<open>
  A Python \<open>str\<close> is a sequence of code points. The model takes a \<^typ>\<open>string\<close> to be such
  a sequence with every code point below 256, and each character class below is Python's
  class restricted to that range: \<open>str.isspace\<close> (which \<open>strip\<close>, \<open>split\<close> and the
  pattern \<open>\s\<close> share), \<open>\d\<close>, \<open>\w\<close> and the dot, which matches everything but a line feed.
\<close>

definition code :: "char \<Rightarrow> nat" where
  "code c = of_char c"

definition is_space :: "char \<Rightarrow> bool" where
  "is_space c = (let n = code c in
     (9 \<le> n \<and> n \<le> 13) \<or> (28 \<le> n \<and> n \<le> 32) \<or> n = 133 \<or> n = 160)"

definition is_digit :: "char \<Rightarrow> bool" where
  "is_digit c = (let n = code c in 48 \<le> n \<and> n \<le> 57)"

definition is_word :: "char \<Rightarrow> bool" where
  "is_word c = (let n = code c in
     (48 \<le> n \<and> n \<le> 57) \<or> (65 \<le> n \<and> n \<le> 90) \<or> n = 95 \<or> (97 \<le> n \<and> n \<le> 122) \<or>
     n = 170 \<or> n = 178 \<or> n = 179 \<or> n = 181 \<or> n = 185 \<or> n = 186 \<or>
     (188 \<le> n \<and> n \<le> 190) \<or> (192 \<le> n \<and> n \<le> 214) \<or> (216 \<le> n \<and> n \<le> 246) \<or>
     248 \<le> n)"

definition is_dot :: "char \<Rightarrow> bool" where
  "is_dot c = (code c \<noteq> 10)"

definition lower_char :: "char \<Rightarrow> char" where
  "lower_char c = (let n = code c in
     if (65 \<le> n \<and> n \<le> 90) \<or> (192 \<le> n \<and> n \<le> 214) \<or> (216 \<le> n \<and> n \<le> 222)
     then char_of (n + 32) else c)"

text \<open>\<open>s.lower()\<close>\<close>

definition lower :: "string \<Rightarrow> string" where
  "lower s = map lower_char s"

text \<open>\<open>s.strip()\<close>: white space is removed at both ends, nothing else changes.\<close>

definition lstrip :: "string \<Rightarrow> string" where
  "lstrip s = dropWhile is_space s"

definition rstrip :: "string \<Rightarrow> string" where
  "rstrip s = rev (dropWhile is_space (rev s))"

definition strip :: "string \<Rightarrow> string" where
  "strip s = rstrip (lstrip s)"

text \<open>
  \<open>s.split()\<close> with no argument: the maximal runs of characters that are not white
  space, left to right. The scan keeps the token read so far in \<open>tok\<close>.
\<close>

fun split_scan :: "string \<Rightarrow> string \<Rightarrow> string list" where
  "split_scan tok [] = (if tok = [] then [] else [tok])"
| "split_scan tok (c # cs) =
     (if is_space c then (if tok = [] then split_scan [] cs else tok # split_scan [] cs)
      else split_scan (tok @ [c]) cs)"

definition split :: "string \<Rightarrow> string list" where
  "split s = split_scan [] s"

text \<open>\<open>needle in hay\<close> on strings: \<open>needle\<close> occurs as a contiguous piece of \<open>hay\<close>.\<close>

fun starts_with :: "string \<Rightarrow> string \<Rightarrow> bool" where
  "starts_with [] hay = True"
| "starts_with (c # cs) [] = False"
| "starts_with (c # cs) (d # ds) = (c = d \<and> starts_with cs ds)"

fun str_in :: "string \<Rightarrow> string \<Rightarrow> bool" where
  "str_in needle [] = (needle = [])"
| "str_in needle (c # cs) = (starts_with needle (c # cs) \<or> str_in needle cs)"

text \<open>The exceptions the modelled code can raise.\<close>

datatype exn = IndexError

text \<open>\<open>xs[0]\<close>\<close>

definition index0 :: "'a list \<Rightarrow> exn + 'a" where
  "index0 xs = (case xs of [] \<Rightarrow> Inl IndexError | x # _ \<Rightarrow> Inr x)"

section \<open>The two patterns\<close>

text \<open>
  Both patterns are sequences of literals and of greedy repetitions \<open>C+\<close> of a character
  class. Every repetition but the last is followed by a literal whose first character is
  outside the class (\<open>)\<close> after \<open>\d+\<close>, \<open>:\<close> after \<open>\w+\<close>, a blank after \<open>[^\s]+\<close>), so
  at a given start only the longest run can be followed by that literal and backtracking
  into a shorter run never helps; the last repetition \<open>.+\<close> ends the pattern and greedily
  takes the longest run. \<open>lit\<close> matches a literal and \<open>many1\<close> the longest non-empty run;
  both return what is left of the text.
\<close>

definition lit :: "string \<Rightarrow> string \<Rightarrow> string option" where
  "lit p s = (if starts_with p s then Some (drop (length p) s) else None)"

definition many1 :: "(char \<Rightarrow> bool) \<Rightarrow> string \<Rightarrow> (string \<times> string) option" where
  "many1 P s = (let m = takeWhile P s in if m = [] then None else Some (m, dropWhile P s))"

text \<open>
  \<open>([EWID]) \((\d+)\) (\w+): (.+)\<close> matched at the start of \<open>s\<close>; the result is
  \<open>match.groups()\<close>.
\<close>

definition match_esp :: "string \<Rightarrow> (char \<times> string \<times> string \<times> string) option" where
  "match_esp s =
     (case s of [] \<Rightarrow> None
      | level # r0 \<Rightarrow>
        if level \<notin> set ''EWID'' then None else
        (case lit '' ('' r0 of None \<Rightarrow> None
         | Some r1 \<Rightarrow>
        (case many1 is_digit r1 of None \<Rightarrow> None
         | Some (ts, r2) \<Rightarrow>
        (case lit '') '' r2 of None \<Rightarrow> None
         | Some r3 \<Rightarrow>
        (case many1 is_word r3 of None \<Rightarrow> None
         | Some (tg, r4) \<Rightarrow>
        (case lit '': '' r4 of None \<Rightarrow> None
         | Some r5 \<Rightarrow>
        (case many1 is_dot r5 of None \<Rightarrow> None
         | Some (msg, r6) \<Rightarrow> Some (level, ts, tg, msg))))))))"

text \<open>\<open>re.search\<close>: the match at the leftmost start that has one.\<close>

fun search_esp :: "string \<Rightarrow> (char \<times> string \<times> string \<times> string) option" where
  "search_esp [] = match_esp []"
| "search_esp (c # cs) =
     (case match_esp (c # cs) of Some g \<Rightarrow> Some g | None \<Rightarrow> search_esp cs)"

text \<open>\<open>\[MQTT\] ([^\s]+) (.+)\<close> matched at the start of \<open>s\<close>, and searched.\<close>

definition match_mqtt :: "string \<Rightarrow> (string \<times> string) option" where
  "match_mqtt s =
     (case lit ''[MQTT] '' s of None \<Rightarrow> None
      | Some r1 \<Rightarrow>
     (case many1 (\<lambda>c. \<not> is_space c) r1 of None \<Rightarrow> None
      | Some (tp, r2) \<Rightarrow>
     (case lit '' '' r2 of None \<Rightarrow> None
      | Some r3 \<Rightarrow>
     (case many1 is_dot r3 of None \<Rightarrow> None
      | Some (pl, r4) \<Rightarrow> Some (tp, pl)))))"

fun search_mqtt :: "string \<Rightarrow> (string \<times> string) option" where
  "search_mqtt [] = match_mqtt []"
| "search_mqtt (c # cs) =
     (case match_mqtt (c # cs) of Some g \<Rightarrow> Some g | None \<Rightarrow> search_mqtt cs)"

section \<open>\<open>analyze_serial_log\<close>\<close>

text \<open>
  The dictionary built for one matched line (lines 42--46 of \<open>analyze_logs.py\<close>). It has
  no severity key: which list it is appended to is all that records the level.
\<close>

record entry =
  timestamp :: string
  tag :: string
  message :: string

text \<open>
  \<open>defaultdict(list)\<close>, as the list of its items in insertion order; \<open>d[k].append(v)\<close>
  appends to the list of an existing key and adds a new key at the end.
\<close>

fun dict_append :: "'k \<Rightarrow> 'v \<Rightarrow> ('k \<times> 'v list) list \<Rightarrow> ('k \<times> 'v list) list" where
  "dict_append k v [] = [(k, [v])]"
| "dict_append k v ((k', vs) # d) =
     (if k = k' then (k', vs @ [v]) # d else (k', vs) # dict_append k v d)"

text \<open>\<open>d.get(k, [])\<close> on such a dictionary.\<close>

fun dict_get :: "('k \<times> 'v list) list \<Rightarrow> 'k \<Rightarrow> 'v list" where
  "dict_get [] k = []"
| "dict_get ((k', vs) # d) k = (if k = k' then vs else dict_get d k)"

record serial_results =
  total_lines :: nat
  errors :: "entry list"
  warnings :: "entry list"
  info_messages :: "entry list"
  esp_logs :: "(string \<times> entry list) list"
  reboots :: "string list"
  timestamps :: "string list"

definition serial_init :: serial_results where
  "serial_init = \<lparr>total_lines = 0, errors = [], warnings = [], info_messages = [],
     esp_logs = [], reboots = [], timestamps = []\<rparr>"

text \<open>Lines 42--55: what a successful match does to the results.\<close>

definition add_entry :: "char \<times> string \<times> string \<times> string \<Rightarrow> serial_results \<Rightarrow> serial_results" where
  "add_entry g r =
     (case g of (level, ts, tg, msg) \<Rightarrow>
        let e = \<lparr>timestamp = ts, tag = tg, message = strip msg\<rparr>;
            r' = (if level = CHR ''E'' then r\<lparr>errors := errors r @ [e]\<rparr>
                  else if level = CHR ''W'' then r\<lparr>warnings := warnings r @ [e]\<rparr>
                  else if level = CHR ''I'' then r\<lparr>info_messages := info_messages r @ [e]\<rparr>
                  else r)
        in r'\<lparr>esp_logs := dict_append tg e (esp_logs r')\<rparr>)"

text \<open>Lines 58--59.\<close>

definition is_reboot :: "string \<Rightarrow> bool" where
  "is_reboot line = (str_in ''ESP-ROM:esp32'' line \<or> str_in ''Rebooting...'' line)"

text \<open>The body of the loop over the lines of the serial log (lines 37--59).\<close>

definition serial_line :: "serial_results \<Rightarrow> string \<Rightarrow> serial_results" where
  "serial_line r line =
     (let r1 = r\<lparr>total_lines := total_lines r + 1\<rparr>;
          r2 = (case search_esp line of None \<Rightarrow> r1 | Some g \<Rightarrow> add_entry g r1)
      in if is_reboot line then r2\<lparr>reboots := reboots r2 @ [strip line]\<rparr> else r2)"

text \<open>
  A log file is \<open>None\<close> when \<open>os.path.exists\<close> is false and otherwise the lines that
  iterating over the open file yields. A missing file gives the dictionary
  \<open>{"error": ...}\<close>, modelled by \<open>Inl\<close> of its text.
\<close>

definition analyze_serial_log :: "string list option \<Rightarrow> string + serial_results" where
  "analyze_serial_log file =
     (case file of None \<Rightarrow> Inl ''Serial log not found''
      | Some lines \<Rightarrow> Inr (foldl serial_line serial_init lines))"

section \<open>\<open>analyze_mqtt_log\<close>\<close>

text \<open>
  The \<open>timestamp\<close> key of an MQTT entry is \<open>datetime.now().isoformat()\<close>. The clock is an
  input of the model: \<open>clk k\<close> is the text of the reading that the \<open>k\<close>-th call of
  \<open>datetime.now()\<close> returns, and the number of calls made so far is passed along. The
  fields \<open>mqtt_timestamp\<close>, \<open>cmd_topic\<close>, \<open>resp_tag\<close> and \<open>resp_message\<close> below are the
  keys \<open>timestamp\<close>, \<open>topic\<close>, \<open>tag\<close> and \<open>message\<close> of their dictionaries.
\<close>

record mqtt_entry =
  topic :: string
  payload :: string
  mqtt_timestamp :: string

record mqtt_results =
  total_messages :: nat
  topics :: "(string \<times> mqtt_entry list) list"
  commands_sent :: "mqtt_entry list"
  responses_received :: "mqtt_entry list"
  home_assistant_configs :: nat
  status_messages :: "mqtt_entry list"

definition mqtt_init :: mqtt_results where
  "mqtt_init = \<lparr>total_messages = 0, topics = [], commands_sent = [],
     responses_received = [], home_assistant_configs = 0, status_messages = []\<rparr>"

text \<open>Lines 92--100: the entry is indexed by topic and then categorised.\<close>

definition categorize :: "mqtt_entry \<Rightarrow> mqtt_results \<Rightarrow> mqtt_results" where
  "categorize e r =
     (let r1 = r\<lparr>topics := dict_append (topic e) e (topics r)\<rparr>
      in if str_in ''/command'' (topic e) then r1\<lparr>commands_sent := commands_sent r1 @ [e]\<rparr>
         else if str_in ''/status'' (topic e) then r1\<lparr>status_messages := status_messages r1 @ [e]\<rparr>
         else if str_in ''homeassistant/'' (topic e)
           then r1\<lparr>home_assistant_configs := home_assistant_configs r1 + 1\<rparr>
         else r1)"

text \<open>The body of the loop over the lines of the MQTT log (lines 79--100).\<close>

definition mqtt_line :: "(nat \<Rightarrow> string) \<Rightarrow> nat \<times> mqtt_results \<Rightarrow> string \<Rightarrow> nat \<times> mqtt_results" where
  "mqtt_line clk st line =
     (case st of (n, r) \<Rightarrow>
        if str_in ''[MQTT]'' line then
          (let r1 = r\<lparr>total_messages := total_messages r + 1\<rparr>
           in case search_mqtt line of None \<Rightarrow> (n, r1)
              | Some (tp, pl) \<Rightarrow>
                  (Suc n, categorize \<lparr>topic = tp, payload = strip pl, mqtt_timestamp = clk n\<rparr> r1))
        else (n, r))"

definition analyze_mqtt_log ::
  "(nat \<Rightarrow> string) \<Rightarrow> nat \<Rightarrow> string list option \<Rightarrow> nat \<times> (string + mqtt_results)" where
  "analyze_mqtt_log clk n file =
     (case file of None \<Rightarrow> (n, Inl ''MQTT log not found'')
      | Some lines \<Rightarrow>
          (case foldl (mqtt_line clk) (n, mqtt_init) lines of (n', r) \<Rightarrow> (n', Inr r)))"

section \<open>\<open>correlate_command_responses\<close>\<close>

record serial_response =
  resp_tag :: string
  resp_message :: string

record correlation =
  command :: string
  cmd_topic :: string
  mqtt_responses :: "mqtt_entry list"
  serial_responses :: "serial_response list"

text \<open>
  \<open>mqtt_data.get("commands_sent", [])\<close>, \<open>mqtt_data.get("status_messages", [])\<close> and
  \<open>serial_data.get("esp_logs", {})\<close>: the default is taken when the dictionary is the
  \<open>{"error": ...}\<close> of a missing file.
\<close>

definition get_commands_sent :: "string + mqtt_results \<Rightarrow> mqtt_entry list" where
  "get_commands_sent d = (case d of Inl _ \<Rightarrow> [] | Inr r \<Rightarrow> commands_sent r)"

definition get_status_messages :: "string + mqtt_results \<Rightarrow> mqtt_entry list" where
  "get_status_messages d = (case d of Inl _ \<Rightarrow> [] | Inr r \<Rightarrow> status_messages r)"

definition get_esp_logs :: "string + serial_results \<Rightarrow> (string \<times> entry list) list" where
  "get_esp_logs d = (case d of Inl _ \<Rightarrow> [] | Inr r \<Rightarrow> esp_logs r)"

text \<open>Lines 120--122: the loop over the status messages.\<close>

definition attach_mqtt :: "mqtt_entry \<Rightarrow> mqtt_entry list \<Rightarrow> correlation \<Rightarrow> correlation" where
  "attach_mqtt cmd statuses c0 =
     foldl (\<lambda>c status.
              if str_in (lower (payload cmd)) (lower (payload status))
              then c\<lparr>mqtt_responses := mqtt_responses c @ [status]\<rparr> else c)
           c0 statuses"

text \<open>Lines 126--132: the loops over the tags and over the entries of each tag.\<close>

definition attach_tag :: "string \<Rightarrow> string \<Rightarrow> entry list \<Rightarrow> correlation \<Rightarrow> correlation" where
  "attach_tag cmd_keyword tg logs c0 =
     foldl (\<lambda>c log.
              if str_in cmd_keyword (lower (message log))
              then c\<lparr>serial_responses := serial_responses c @
                       [\<lparr>resp_tag = tg, resp_message = message log\<rparr>]\<rparr>
              else c)
           c0 logs"

definition attach_serial :: "string \<Rightarrow> (string \<times> entry list) list \<Rightarrow> correlation \<Rightarrow> correlation" where
  "attach_serial cmd_keyword items c0 =
     foldl (\<lambda>c item. case item of (tg, logs) \<Rightarrow> attach_tag cmd_keyword tg logs c) c0 items"

text \<open>
  Lines 112--132, the correlation of one command. Line 125 takes element 0 of
  \<open>cmd["payload"].split()\<close> and raises when the list is empty.
\<close>

definition correlate_one ::
  "mqtt_entry list \<Rightarrow> (string \<times> entry list) list \<Rightarrow> mqtt_entry \<Rightarrow> exn + correlation" where
  "correlate_one statuses items cmd =
     (let c0 = \<lparr>command = payload cmd, cmd_topic = topic cmd,
                 mqtt_responses = [], serial_responses = []\<rparr>;
          c1 = attach_mqtt cmd statuses c0
      in case index0 (split (payload cmd)) of Inl e \<Rightarrow> Inl e
         | Inr w \<Rightarrow> Inr (attach_serial (lower w) items c1))"

text \<open>The loop over the commands (lines 111--134); an exception ends it.\<close>

fun correlate_loop ::
  "mqtt_entry list \<Rightarrow> (string \<times> entry list) list \<Rightarrow> correlation list \<Rightarrow> mqtt_entry list
     \<Rightarrow> exn + correlation list" where
  "correlate_loop statuses items correlations [] = Inr correlations"
| "correlate_loop statuses items correlations (cmd # cmds) =
     (case correlate_one statuses items cmd of Inl e \<Rightarrow> Inl e
      | Inr c \<Rightarrow> correlate_loop statuses items (correlations @ [c]) cmds)"

definition correlate_data ::
  "string + mqtt_results \<Rightarrow> string + serial_results \<Rightarrow> exn + correlation list" where
  "correlate_data mqtt_data serial_data =
     correlate_loop (get_status_messages mqtt_data) (get_esp_logs serial_data) []
       (get_commands_sent mqtt_data)"

definition correlate_command_responses ::
  "(nat \<Rightarrow> string) \<Rightarrow> nat \<Rightarrow> string list option \<Rightarrow> string list option
     \<Rightarrow> nat \<times> (exn + correlation list)" where
  "correlate_command_responses clk n serial_file mqtt_file =
     (case analyze_mqtt_log clk n mqtt_file of (n', mqtt_data) \<Rightarrow>
        (n', correlate_data mqtt_data (analyze_serial_log serial_file)))"

section \<open>\<open>generate_report\<close>: the document given to \<open>json.dump\<close>\<close>

datatype json = JString string | JNumber nat | JArray "json list" | JObject "(string \<times> json) list"

definition json_entry :: "entry \<Rightarrow> json" where
  "json_entry e = JObject [(''timestamp'', JString (timestamp e)), (''tag'', JString (tag e)),
     (''message'', JString (message e))]"

definition json_mqtt_entry :: "mqtt_entry \<Rightarrow> json" where
  "json_mqtt_entry e = JObject [(''topic'', JString (topic e)), (''payload'', JString (payload e)),
     (''timestamp'', JString (mqtt_timestamp e))]"

definition json_serial :: "string + serial_results \<Rightarrow> json" where
  "json_serial d =
     (case d of Inl msg \<Rightarrow> JObject [(''error'', JString msg)]
      | Inr r \<Rightarrow> JObject
         [(''total_lines'', JNumber (total_lines r)),
          (''errors'', JArray (map json_entry (errors r))),
          (''warnings'', JArray (map json_entry (warnings r))),
          (''info_messages'', JArray (map json_entry (info_messages r))),
          (''esp_logs'', JObject (map (\<lambda>(k, vs). (k, JArray (map json_entry vs))) (esp_logs r))),
          (''reboots'', JArray (map JString (reboots r))),
          (''timestamps'', JArray (map JString (timestamps r)))])"

definition json_mqtt :: "string + mqtt_results \<Rightarrow> json" where
  "json_mqtt d =
     (case d of Inl msg \<Rightarrow> JObject [(''error'', JString msg)]
      | Inr r \<Rightarrow> JObject
         [(''total_messages'', JNumber (total_messages r)),
          (''topics'', JObject (map (\<lambda>(k, vs). (k, JArray (map json_mqtt_entry vs))) (topics r))),
          (''commands_sent'', JArray (map json_mqtt_entry (commands_sent r))),
          (''responses_received'', JArray (map json_mqtt_entry (responses_received r))),
          (''home_assistant_configs'', JNumber (home_assistant_configs r)),
          (''status_messages'', JArray (map json_mqtt_entry (status_messages r)))])"

definition json_serial_response :: "serial_response \<Rightarrow> json" where
  "json_serial_response x = JObject [(''tag'', JString (resp_tag x)),
     (''message'', JString (resp_message x))]"

definition json_correlation :: "correlation \<Rightarrow> json" where
  "json_correlation c = JObject
     [(''command'', JString (command c)), (''topic'', JString (cmd_topic c)),
      (''mqtt_responses'', JArray (map json_mqtt_entry (mqtt_responses c))),
      (''serial_responses'', JArray (map json_serial_response (serial_responses c)))]"

text \<open>
  The three analyses of \<open>generate_report\<close> (lines 145, 160 and 170), in its order:
  the MQTT log is read at line 160 and again inside \<open>correlate_command_responses\<close>.
  The printing is not modelled.
\<close>

definition run_analyses ::
  "(nat \<Rightarrow> string) \<Rightarrow> nat \<Rightarrow> string list option \<Rightarrow> string list option
     \<Rightarrow> nat \<times> (string + serial_results) \<times> (string + mqtt_results) \<times> (exn + correlation list)" where
  "run_analyses clk n serial_file mqtt_file =
     (let serial_data = analyze_serial_log serial_file
      in case analyze_mqtt_log clk n mqtt_file of (n1, mqtt_data) \<Rightarrow>
         (case correlate_command_responses clk n1 serial_file mqtt_file of (n2, correlations) \<Rightarrow>
            (n2, serial_data, mqtt_data, correlations)))"

text \<open>
  Lines 179--186. The name of the report file takes one reading of the clock and the
  \<open>timestamp\<close> field the next one. An exception raised by the correlation leaves
  \<open>generate_report\<close> before anything is written.
\<close>

definition generate_report ::
  "(nat \<Rightarrow> string) \<Rightarrow> nat \<Rightarrow> string list option \<Rightarrow> string list option \<Rightarrow> exn + json" where
  "generate_report clk n serial_file mqtt_file =
     (case run_analyses clk n serial_file mqtt_file of (n2, serial_data, mqtt_data, res) \<Rightarrow>
        (case res of Inl e \<Rightarrow> Inl e
         | Inr correlations \<Rightarrow> Inr (JObject
             [(''serial_analysis'', json_serial serial_data),
              (''mqtt_analysis'', json_mqtt mqtt_data),
              (''correlations'', JArray (map json_correlation correlations)),
              (''timestamp'', JString (clk (Suc n2)))])))"

section \<open>Example logs\<close>

text \<open>A clock whose \<open>k\<close>-th reading is \<open>T\<close> followed by \<open>k\<close> plus signs.\<close>

definition tick :: "nat \<Rightarrow> string" where
  "tick k = ''T'' @ replicate k (CHR ''+'')"

definition serial_example :: "string list" where
  "serial_example =
     [''I (10) mqtt: status requested'',
      ''E (1234) wifi: connection lost'',
      ''W (1300) mqtt: Status pending'']"

definition mqtt_example :: "string list" where
  "mqtt_example =
     [''[MQTT] wordclock/command status'',
      ''[MQTT] wordclock/status Status: OK, brightness=50'',
      ''[MQTT] wordclock/command STATUS: ok'',
      ''[MQTT] homeassistant/light/config {}'']"

text \<open>A command line whose payload is one blank: the topic is followed by two blanks.\<close>

definition mqtt_blank_command :: "string list" where
  "mqtt_blank_command = [''[MQTT] wordclock/command  '']"

text \<open>The same line ended by a line feed, as a line that is not the last of its file.\<close>

definition mqtt_blank_command_lf :: "string list" where
  "mqtt_blank_command_lf = [''[MQTT] wordclock/command  '' @ [CHR 0x0A]]"

text \<open>What the two analyses return on \<open>mqtt_example\<close> with the clock \<open>tick\<close>.\<close>

definition mqtt_example_data :: mqtt_results where
  "mqtt_example_data =
     \<lparr>total_messages = 4,
      topics =
        [(''wordclock/command'',
          [\<lparr>topic = ''wordclock/command'', payload = ''status'', mqtt_timestamp = ''T''\<rparr>,
           \<lparr>topic = ''wordclock/command'', payload = ''STATUS: ok'', mqtt_timestamp = ''T++''\<rparr>]),
         (''wordclock/status'',
          [\<lparr>topic = ''wordclock/status'', payload = ''Status: OK, brightness=50'',
             mqtt_timestamp = ''T+''\<rparr>]),
         (''homeassistant/light/config'',
          [\<lparr>topic = ''homeassistant/light/config'', payload = ''{}'',
             mqtt_timestamp = ''T+++''\<rparr>])],
      commands_sent =
        [\<lparr>topic = ''wordclock/command'', payload = ''status'', mqtt_timestamp = ''T''\<rparr>,
         \<lparr>topic = ''wordclock/command'', payload = ''STATUS: ok'', mqtt_timestamp = ''T++''\<rparr>],
      responses_received = [], home_assistant_configs = 1,
      status_messages =
        [\<lparr>topic = ''wordclock/status'', payload = ''Status: OK, brightness=50'',
           mqtt_timestamp = ''T+''\<rparr>]\<rparr>"

definition mqtt_example_correlations :: "correlation list" where
  "mqtt_example_correlations =
     [\<lparr>command = ''status'', cmd_topic = ''wordclock/command'',
        mqtt_responses =
          [\<lparr>topic = ''wordclock/status'', payload = ''Status: OK, brightness=50'',
             mqtt_timestamp = ''T+''\<rparr>],
        serial_responses =
          [\<lparr>resp_tag = ''mqtt'', resp_message = ''status requested''\<rparr>,
           \<lparr>resp_tag = ''mqtt'', resp_message = ''Status pending''\<rparr>]\<rparr>,
      \<lparr>command = ''STATUS: ok'', cmd_topic = ''wordclock/command'',
        mqtt_responses =
          [\<lparr>topic = ''wordclock/status'', payload = ''Status: OK, brightness=50'',
             mqtt_timestamp = ''T+''\<rparr>],
        serial_responses = []\<rparr>]"

text \<open>Entries whose topics pass several, one or none of the three tests of lines 95--99.\<close>

definition entry_command_status :: mqtt_entry where
  "entry_command_status =
     \<lparr>topic = ''wordclock/command/status'', payload = ''on'', mqtt_timestamp = ''T''\<rparr>"

definition entry_ha_status :: mqtt_entry where
  "entry_ha_status = \<lparr>topic = ''homeassistant/status'', payload = ''online'', mqtt_timestamp = ''T''\<rparr>"

definition entry_ha_config :: mqtt_entry where
  "entry_ha_config = \<lparr>topic = ''homeassistant/light/config'', payload = ''{}'', mqtt_timestamp = ''T''\<rparr>"

definition entry_other :: mqtt_entry where
  "entry_other = \<lparr>topic = ''wordclock/availability'', payload = ''online'', mqtt_timestamp = ''T''\<rparr>"

text \<open>
  Device lines: a debug line whose message ends in a blank, an error line that is also a
  restart banner, and a boot-loader banner that is no structured line.
\<close>

definition line_debug :: string where
  "line_debug = ''D (7) wifi: scan done ''"

definition line_error_reboot :: string where
  "line_error_reboot = ''E (9) boot: Rebooting...''"

definition line_banner :: string where
  "line_banner = ''ESP-ROM:esp32s3-20210327''"

text \<open>An MQTT log of one command.\<close>

definition mqtt_one_command :: "string list" where
  "mqtt_one_command = [''[MQTT] a/command go'']"

text \<open>The document of the report on an empty serial log and \<open>mqtt_one_command\<close>.\<close>

definition report_one_command :: json where
  "report_one_command =
     JObject
       [(''serial_analysis'',
         JObject
          [(''total_lines'', JNumber 0), (''errors'', JArray []),
           (''warnings'', JArray []), (''info_messages'', JArray []),
           (''esp_logs'', JObject []), (''reboots'', JArray []),
           (''timestamps'', JArray [])]),
        (''mqtt_analysis'',
         JObject
          [(''total_messages'', JNumber 1),
           (''topics'',
            JObject
             [(''a/command'',
               JArray
                [JObject
                  [(''topic'', JString ''a/command''),
                   (''payload'', JString ''go''),
                   (''timestamp'', JString ''T'')]])]),
           (''commands_sent'',
            JArray
             [JObject
               [(''topic'', JString ''a/command''),
                (''payload'', JString ''go''),
                (''timestamp'', JString ''T'')]]),
           (''responses_received'', JArray []),
           (''home_assistant_configs'', JNumber 0),
           (''status_messages'', JArray [])]),
        (''correlations'',
         JArray
          [JObject
            [(''command'', JString ''go''),
             (''topic'', JString ''a/command''),
             (''mqtt_responses'', JArray []),
             (''serial_responses'', JArray [])]]),
        (''timestamp'', JString ''T+++'')]"

text \<open>Three error lines whose tags alternate.\<close>

definition serial_interleaved :: "string list" where
  "serial_interleaved =
     [''E (1) wifi: first'', ''E (2) mqtt: second'', ''E (3) wifi: third'']"

text \<open>What \<open>analyze_serial_log\<close> returns on \<open>serial_interleaved\<close>.\<close>

definition serial_interleaved_results :: serial_results where
  "serial_interleaved_results =
     \<lparr>total_lines = 3,
      errors = [\<lparr>timestamp = ''1'', tag = ''wifi'', message = ''first''\<rparr>,
                \<lparr>timestamp = ''2'', tag = ''mqtt'', message = ''second''\<rparr>,
                \<lparr>timestamp = ''3'', tag = ''wifi'', message = ''third''\<rparr>],
      warnings = [], info_messages = [],
      esp_logs = [(''wifi'', [\<lparr>timestamp = ''1'', tag = ''wifi'', message = ''first''\<rparr>,
                              \<lparr>timestamp = ''3'', tag = ''wifi'', message = ''third''\<rparr>]),
                  (''mqtt'', [\<lparr>timestamp = ''2'', tag = ''mqtt'', message = ''second''\<rparr>])],
      reboots = [], timestamps = []\<rparr>"

section \<open>Quantities and projections used in the statements\<close>

text \<open>
  The number of records held by the three categories of the MQTT results, and the number
  of records held by its topic index.
\<close>

definition categorised :: "mqtt_results \<Rightarrow> nat" where
  "categorised r = length (commands_sent r) + length (status_messages r) + home_assistant_configs r"

definition indexed :: "mqtt_results \<Rightarrow> nat" where
  "indexed r = length (concat (map snd (topics r)))"

text \<open>The field names of a JSON object, in order, and the value of a field.\<close>

definition keys :: "json \<Rightarrow> string list" where
  "keys j = (case j of JObject kvs \<Rightarrow> map fst kvs | _ \<Rightarrow> [])"

definition field :: "json \<Rightarrow> string \<Rightarrow> json option" where
  "field j k = (case j of JObject kvs \<Rightarrow> map_of kvs k | _ \<Rightarrow> None)"

text \<open>The field names of each element of the \<open>correlations\<close> array of a report.\<close>

definition correlation_keys :: "json \<Rightarrow> string list list" where
  "correlation_keys doc =
     (case field doc ''correlations'' of Some (JArray cs) \<Rightarrow> map keys cs | _ \<Rightarrow> [])"

text \<open>
  The two selections made for one command, written as comprehensions: the status messages
  whose lower-cased payload contains the command's lower-cased payload, and the device
  records, tag by tag in the order of the index, whose lower-cased message contains the
  keyword.
\<close>

definition bus_matches :: "mqtt_entry \<Rightarrow> mqtt_entry list \<Rightarrow> mqtt_entry list" where
  "bus_matches cmd statuses =
     filter (\<lambda>status. str_in (lower (payload cmd)) (lower (payload status))) statuses"

definition device_matches :: "string \<Rightarrow> (string \<times> entry list) list \<Rightarrow> serial_response list" where
  "device_matches cmd_keyword items =
     concat (map (\<lambda>(tg, logs).
                    map (\<lambda>log. \<lparr>resp_tag = tg, resp_message = message log\<rparr>)
                      (filter (\<lambda>log. str_in cmd_keyword (lower (message log))) logs))
                 items)"

text \<open>
  The results with the readings of the clock left out: every \<open>timestamp\<close> of an MQTT
  entry is replaced by the empty string, and the count of readings is dropped.
\<close>

definition erase_entry :: "mqtt_entry \<Rightarrow> mqtt_entry" where
  "erase_entry e = e\<lparr>mqtt_timestamp := []\<rparr>"

definition erase_topics :: "(string \<times> mqtt_entry list) list \<Rightarrow> (string \<times> mqtt_entry list) list" where
  "erase_topics d = map (\<lambda>(k, vs). (k, map erase_entry vs)) d"

definition erase_results :: "mqtt_results \<Rightarrow> mqtt_results" where
  "erase_results r = r\<lparr>topics := erase_topics (topics r),
     commands_sent := map erase_entry (commands_sent r),
     responses_received := map erase_entry (responses_received r),
     status_messages := map erase_entry (status_messages r)\<rparr>"

definition erase_correlation :: "correlation \<Rightarrow> correlation" where
  "erase_correlation c = c\<lparr>mqtt_responses := map erase_entry (mqtt_responses c)\<rparr>"

definition erase_analyses ::
  "nat \<times> (string + serial_results) \<times> (string + mqtt_results) \<times> (exn + correlation list)
     \<Rightarrow> (string + serial_results) \<times> (string + mqtt_results) \<times> (exn + correlation list)" where
  "erase_analyses x =
     (case x of (n, serial_data, mqtt_data, correlations) \<Rightarrow>
        (serial_data, map_sum id erase_results mqtt_data,
         map_sum id (map erase_correlation) correlations))"

text \<open>A second clock, none of whose readings is a reading of \<open>tick\<close>.\<close>

definition tock :: "nat \<Rightarrow> string" where
  "tock k = ''U'' @ replicate k (CHR ''+'')"

text \<open>
  The tag index with the level of each record. An entry of the code has no severity key,
  so the index \<open>esp_logs\<close> alone does not say which of its records are errors; \<open>level_index\<close>
  is built by the same loop and the same \<open>dict_append\<close> as \<open>esp_logs\<close>, and keeps beside
  each entry the level letter that lines 48--53 branch on. \<open>errors_by_tag\<close> concatenates
  the lists of all tags, in the order of the index, and keeps the records of level \<open>E\<close>.
\<close>

definition level_line ::
  "(string \<times> (char \<times> entry) list) list \<Rightarrow> string \<Rightarrow> (string \<times> (char \<times> entry) list) list" where
  "level_line idx line =
     (case search_esp line of None \<Rightarrow> idx
      | Some (level, ts, tg, msg) \<Rightarrow>
          dict_append tg (level, \<lparr>timestamp = ts, tag = tg, message = strip msg\<rparr>) idx)"

definition level_index :: "string list \<Rightarrow> (string \<times> (char \<times> entry) list) list" where
  "level_index lines = foldl level_line [] lines"

definition errors_of :: "(char \<times> entry) list \<Rightarrow> entry list" where
  "errors_of xs = map snd (filter (\<lambda>x. fst x = CHR ''E'') xs)"

definition errors_by_tag :: "string list \<Rightarrow> entry list" where
  "errors_by_tag lines = errors_of (concat (map snd (level_index lines)))"

section \<open>Substring test\<close>

lemma starts_with_iff: "starts_with n h \<longleftrightarrow> (\<exists>post. h = n @ post)"
  by (induction n h rule: starts_with.induct) auto

lemma str_in_iff: "str_in n h \<longleftrightarrow> (\<exists>pre post. h = pre @ n @ post)"
proof (induction h)
  case Nil
  then show ?case by auto
next
  case (Cons c cs)
  show ?case
  proof
    assume "str_in n (c # cs)"
    then consider "starts_with n (c # cs)" | "str_in n cs" by auto
    then show "\<exists>pre post. c # cs = pre @ n @ post"
    proof cases
      case 1
      then obtain post where "c # cs = n @ post" by (auto simp: starts_with_iff)
      then have "c # cs = [] @ n @ post" by simp
      then show ?thesis by blast
    next
      case 2
      then obtain pre post where "cs = pre @ n @ post" using Cons.IH by blast
      then have "c # cs = (c # pre) @ n @ post" by simp
      then show ?thesis by blast
    qed
  next
    assume "\<exists>pre post. c # cs = pre @ n @ post"
    then obtain pre post where eq: "c # cs = pre @ n @ post" by blast
    show "str_in n (c # cs)"
    proof (cases pre)
      case Nil
      then have "starts_with n (c # cs)" using eq by (auto simp: starts_with_iff)
      then show ?thesis by simp
    next
      case (Cons d ds)
      then have "cs = ds @ n @ post" using eq by simp
      then have "str_in n cs" using Cons.IH by blast
      then show ?thesis by simp
    qed
  qed
qed

lemma str_in_empty: "str_in [] h"
  by (cases h) auto

section \<open>The correlation loops as comprehensions\<close>

lemma attach_mqtt_responses:
  "mqtt_responses (attach_mqtt cmd statuses c0) =
     mqtt_responses c0 @ filter (\<lambda>s. str_in (lower (payload cmd)) (lower (payload s))) statuses"
  unfolding attach_mqtt_def
  by (induction statuses arbitrary: c0) auto

lemma attach_tag_mqtt: "mqtt_responses (attach_tag kw tg logs c0) = mqtt_responses c0"
  unfolding attach_tag_def by (induction logs arbitrary: c0) auto

lemma attach_serial_mqtt: "mqtt_responses (attach_serial kw items c0) = mqtt_responses c0"
  unfolding attach_serial_def by (induction items arbitrary: c0) (auto simp: attach_tag_mqtt)

lemma correlate_one_mqtt:
  "correlate_one statuses items cmd = Inr c \<Longrightarrow>
     mqtt_responses c = filter (\<lambda>s. str_in (lower (payload cmd)) (lower (payload s))) statuses"
  by (auto simp: correlate_one_def Let_def attach_serial_mqtt attach_mqtt_responses split: sum.splits)

lemma correlate_loop_mqtt:
  "correlate_loop statuses items acc cmds = Inr cs \<Longrightarrow>
     map mqtt_responses cs = map mqtt_responses acc @
       map (\<lambda>cmd. filter (\<lambda>s. str_in (lower (payload cmd)) (lower (payload s))) statuses) cmds"
  by (induction cmds arbitrary: acc) (auto split: sum.splits simp: correlate_one_mqtt)

section \<open>What a match of the device pattern consists of\<close>

lemma lit_Some: "lit p s = Some r \<Longrightarrow> s = p @ r"
  by (auto simp: lit_def starts_with_iff split: if_splits)

lemma many1_Some:
  "many1 P s = Some (m, r) \<Longrightarrow> s = m @ r \<and> m \<noteq> [] \<and> (\<forall>c \<in> set m. P c)"
  by (auto simp: many1_def Let_def split: if_splits dest: set_takeWhileD)

lemma match_esp_Some:
  assumes "match_esp s = Some (level, ts, tg, msg)"
  shows "\<exists>post. s = [level] @ '' ('' @ ts @ '') '' @ tg @ '': '' @ msg @ post"
    and "level \<in> set ''EWID''"
    and "ts \<noteq> [] \<and> (\<forall>c \<in> set ts. is_digit c)"
    and "tg \<noteq> [] \<and> (\<forall>c \<in> set tg. is_word c)"
    and "msg \<noteq> [] \<and> (\<forall>c \<in> set msg. is_dot c)"
proof -
  from assms obtain r0 where s: "s = level # r0"
    by (cases s) (auto simp: match_esp_def split: if_splits option.splits)
  have lv: "level \<in> set ''EWID''"
  proof (rule ccontr)
    assume "level \<notin> set ''EWID''"
    then have "match_esp (level # r0) = None" unfolding match_esp_def by simp
    with assms s show False by simp
  qed
  have unf: "match_esp s =
     (case lit '' ('' r0 of None \<Rightarrow> None
         | Some r1 \<Rightarrow>
        (case many1 is_digit r1 of None \<Rightarrow> None
         | Some (ts, r2) \<Rightarrow>
        (case lit '') '' r2 of None \<Rightarrow> None
         | Some r3 \<Rightarrow>
        (case many1 is_word r3 of None \<Rightarrow> None
         | Some (tg, r4) \<Rightarrow>
        (case lit '': '' r4 of None \<Rightarrow> None
         | Some r5 \<Rightarrow>
        (case many1 is_dot r5 of None \<Rightarrow> None
         | Some (msg, r6) \<Rightarrow> Some (level, ts, tg, msg)))))))"
    unfolding s using lv unfolding match_esp_def by simp
  from assms unf obtain r1 where l1: "lit '' ('' r0 = Some r1"
    by (auto split: option.splits)
  from assms unf l1 obtain r2 where m1: "many1 is_digit r1 = Some (ts, r2)"
    by (auto split: option.splits)
  from assms unf l1 m1 obtain r3 where l2: "lit '') '' r2 = Some r3"
    by (auto split: option.splits)
  from assms unf l1 m1 l2 obtain r4 where m2: "many1 is_word r3 = Some (tg, r4)"
    by (auto split: option.splits)
  from assms unf l1 m1 l2 m2 obtain r5 where l3: "lit '': '' r4 = Some r5"
    by (auto split: option.splits)
  from assms unf l1 m1 l2 m2 l3 obtain r6 where m3: "many1 is_dot r5 = Some (msg, r6)"
    by (auto split: option.splits)
  show "level \<in> set ''EWID''" by (rule lv)
  show "ts \<noteq> [] \<and> (\<forall>c \<in> set ts. is_digit c)" using many1_Some [OF m1] by simp
  show "tg \<noteq> [] \<and> (\<forall>c \<in> set tg. is_word c)" using many1_Some [OF m2] by simp
  show "msg \<noteq> [] \<and> (\<forall>c \<in> set msg. is_dot c)" using many1_Some [OF m3] by simp
  have "s = [level] @ '' ('' @ ts @ '') '' @ tg @ '': '' @ msg @ r6"
    using s lit_Some [OF l1] many1_Some [OF m1] lit_Some [OF l2] many1_Some [OF m2]
      lit_Some [OF l3] many1_Some [OF m3]
    by simp
  then show "\<exists>post. s = [level] @ '' ('' @ ts @ '') '' @ tg @ '': '' @ msg @ post" by blast
qed

lemma search_esp_Some: "search_esp line = Some g \<Longrightarrow> \<exists>pre s. line = pre @ s \<and> match_esp s = Some g"
proof (induction line)
  case Nil
  then show ?case by auto
next
  case (Cons c cs)
  show ?case
  proof (cases "match_esp (c # cs)")
    case None
    with Cons obtain pre s where "cs = pre @ s" "match_esp s = Some g" by auto
    then have "c # cs = (c # pre) @ s \<and> match_esp s = Some g" by simp
    then show ?thesis by blast
  next
    case (Some h)
    with Cons.prems have "c # cs = [] @ (c # cs) \<and> match_esp (c # cs) = Some g" by simp
    then show ?thesis by blast
  qed
qed

lemma lstrip_decomp: "\<exists>a. s = a @ lstrip s \<and> (\<forall>c \<in> set a. is_space c)"
proof -
  have "s = takeWhile is_space s @ lstrip s" by (simp add: lstrip_def)
  moreover have "\<forall>c \<in> set (takeWhile is_space s). is_space c" by (auto dest: set_takeWhileD)
  ultimately show ?thesis by blast
qed

lemma rstrip_decomp: "\<exists>b. s = rstrip s @ b \<and> (\<forall>c \<in> set b. is_space c)"
proof -
  have "rev s = takeWhile is_space (rev s) @ dropWhile is_space (rev s)" by simp
  then have "s = rev (dropWhile is_space (rev s)) @ rev (takeWhile is_space (rev s))"
    by (metis rev_append rev_rev_ident)
  moreover have "\<forall>c \<in> set (rev (takeWhile is_space (rev s))). is_space c"
    by (auto dest: set_takeWhileD)
  ultimately show ?thesis unfolding rstrip_def by blast
qed

lemma strip_decomp:
  "\<exists>a b. s = a @ strip s @ b \<and> (\<forall>c \<in> set a. is_space c) \<and> (\<forall>c \<in> set b. is_space c)"
proof -
  obtain a where a: "s = a @ lstrip s" "\<forall>c \<in> set a. is_space c" using lstrip_decomp by blast
  obtain b where b: "lstrip s = rstrip (lstrip s) @ b" "\<forall>c \<in> set b. is_space c"
    using rstrip_decomp by blast
  from a(1) b(1) have "s = a @ strip s @ b" by (simp add: strip_def)
  with a(2) b(2) show ?thesis by blast
qed

lemma strip_ends:
  "strip s = [] \<or> (\<not> is_space (hd (strip s)) \<and> \<not> is_space (last (strip s)))"
proof (cases "strip s = []")
  case True
  then show ?thesis by simp
next
  case False
  let ?l = "lstrip s"
  from False have ne: "dropWhile is_space (rev ?l) \<noteq> []" by (simp add: strip_def rstrip_def)
  then have "\<not> is_space (hd (dropWhile is_space (rev ?l)))" by (rule hd_dropWhile)
  then have la: "\<not> is_space (last (strip s))"
    using ne by (simp add: strip_def rstrip_def last_rev)
  from ne have lne: "?l \<noteq> []" by auto
  then have "\<not> is_space (hd ?l)" unfolding lstrip_def by (rule hd_dropWhile)
  moreover have "hd (strip s) = hd ?l"
  proof -
    obtain b where "?l = strip s @ b" using rstrip_decomp [of ?l] by (auto simp: strip_def)
    with False show ?thesis by (metis hd_append2)
  qed
  ultimately show ?thesis using la by simp
qed

lemma add_entry_fields:
  "errors (add_entry (level, ts, tg, msg) r) =
     errors r @ (if level = CHR ''E'' then [\<lparr>timestamp = ts, tag = tg, message = strip msg\<rparr>] else [])"
  "warnings (add_entry (level, ts, tg, msg) r) =
     warnings r @ (if level = CHR ''W'' then [\<lparr>timestamp = ts, tag = tg, message = strip msg\<rparr>] else [])"
  "info_messages (add_entry (level, ts, tg, msg) r) =
     info_messages r @ (if level = CHR ''I'' then [\<lparr>timestamp = ts, tag = tg, message = strip msg\<rparr>] else [])"
  "esp_logs (add_entry (level, ts, tg, msg) r) =
     dict_append tg \<lparr>timestamp = ts, tag = tg, message = strip msg\<rparr> (esp_logs r)"
  "reboots (add_entry (level, ts, tg, msg) r) = reboots r"
  "total_lines (add_entry (level, ts, tg, msg) r) = total_lines r"
  "timestamps (add_entry (level, ts, tg, msg) r) = timestamps r"
  by (simp_all add: add_entry_def Let_def)

lemma serial_line_fields:
  "errors (serial_line r line) =
     (case search_esp line of None \<Rightarrow> errors r | Some g \<Rightarrow> errors (add_entry g (r\<lparr>total_lines := total_lines r + 1\<rparr>)))"
  "warnings (serial_line r line) =
     (case search_esp line of None \<Rightarrow> warnings r | Some g \<Rightarrow> warnings (add_entry g (r\<lparr>total_lines := total_lines r + 1\<rparr>)))"
  "info_messages (serial_line r line) =
     (case search_esp line of None \<Rightarrow> info_messages r | Some g \<Rightarrow> info_messages (add_entry g (r\<lparr>total_lines := total_lines r + 1\<rparr>)))"
  "esp_logs (serial_line r line) =
     (case search_esp line of None \<Rightarrow> esp_logs r | Some g \<Rightarrow> esp_logs (add_entry g (r\<lparr>total_lines := total_lines r + 1\<rparr>)))"
  "reboots (serial_line r line) = reboots r @ (if is_reboot line then [strip line] else [])"
  by (auto simp: serial_line_def Let_def add_entry_fields split: option.splits)

text \<open>
  Conversely, a text that begins with a level, digits in parentheses, a tag, a colon and a
  message up to the end of its line is matched with exactly these groups.
\<close>

lemma starts_with_append: "starts_with p (p @ r)"
  by (simp add: starts_with_iff)

lemma lit_append: "lit p (p @ r) = Some r"
  by (simp add: lit_def starts_with_append)

lemma many1_run:
  assumes "m \<noteq> []" and "\<forall>c \<in> set m. P c" and "r = [] \<or> \<not> P (hd r)"
  shows "many1 P (m @ r) = Some (m, r)"
proof -
  have "takeWhile P (m @ r) = m \<and> dropWhile P (m @ r) = r"
  proof (cases r)
    case Nil
    with assms(2) show ?thesis by simp
  next
    case (Cons y ys)
    with assms(3) have "\<not> P y" by simp
    with assms(2) Cons show ?thesis
      by (simp add: takeWhile_append2 dropWhile_append2)
  qed
  with assms(1) show ?thesis by (simp add: many1_def)
qed

lemma match_esp_complete:
  assumes "level \<in> set ''EWID''"
    and "ts \<noteq> []" and "\<forall>c \<in> set ts. is_digit c"
    and "tg \<noteq> []" and "\<forall>c \<in> set tg. is_word c"
    and "msg \<noteq> []" and "\<forall>c \<in> set msg. is_dot c"
    and "post = [] \<or> hd post = CHR 0x0A"
  shows "match_esp ([level] @ '' ('' @ ts @ '') '' @ tg @ '': '' @ msg @ post) =
           Some (level, ts, tg, msg)"
proof -
  have d: "\<not> is_digit (CHR '')'')" and w: "\<not> is_word (CHR '':'')"
    by (simp_all add: is_digit_def is_word_def code_def)
  have n: "post = [] \<or> \<not> is_dot (hd post)"
    using assms(8) by (auto simp: is_dot_def code_def)
  have m1: "many1 is_digit (ts @ '') '' @ tg @ '': '' @ msg @ post) =
      Some (ts, '') '' @ tg @ '': '' @ msg @ post)"
    using many1_run [OF assms(2,3), of "'') '' @ tg @ '': '' @ msg @ post"] d by simp
  have m2: "many1 is_word (tg @ '': '' @ msg @ post) = Some (tg, '': '' @ msg @ post)"
    using many1_run [OF assms(4,5), of "'': '' @ msg @ post"] w by simp
  have m3: "many1 is_dot (msg @ post) = Some (msg, post)"
    using many1_run [OF assms(6,7) n] by simp
  have l1: "lit '' ('' ('' ('' @ ts @ '') '' @ tg @ '': '' @ msg @ post) =
      Some (ts @ '') '' @ tg @ '': '' @ msg @ post)"
    by (rule lit_append)
  have l2: "lit '') '' ('') '' @ tg @ '': '' @ msg @ post) = Some (tg @ '': '' @ msg @ post)"
    by (rule lit_append)
  have l3: "lit '': '' ('': '' @ msg @ post) = Some (msg @ post)"
    by (rule lit_append)
  have "match_esp (level # ('' ('' @ ts @ '') '' @ tg @ '': '' @ msg @ post)) =
      Some (level, ts, tg, msg)"
    unfolding match_esp_def using assms(1) l1 m1 l2 m2 l3 m3
    by (simp del: append.simps set_simps)
  then show ?thesis by simp
qed

section \<open>Splitting a payload into tokens\<close>

lemma split_scan_blank: "\<forall>c \<in> set s. is_space c \<Longrightarrow> split_scan [] s = []"
  by (induction s) auto

lemma split_blank: "\<forall>c \<in> set s. is_space c \<Longrightarrow> split s = []"
  by (simp add: split_def split_scan_blank)

lemma split_scan_nonempty: "tok \<noteq> [] \<Longrightarrow> split_scan tok s \<noteq> []"
  by (induction s arbitrary: tok) auto

lemma split_scan_nonblank: "\<exists>c \<in> set s. \<not> is_space c \<Longrightarrow> split_scan tok s \<noteq> []"
  by (induction s arbitrary: tok) (auto simp: split_scan_nonempty)

lemma split_empty_iff: "split s = [] \<longleftrightarrow> (\<forall>c \<in> set s. is_space c)"
  using split_blank split_scan_nonblank [of s "[]"] by (auto simp: split_def)

lemma correlate_one_blank:
  "\<forall>c \<in> set (payload cmd). is_space c \<Longrightarrow> correlate_one statuses items cmd = Inl IndexError"
  by (simp add: correlate_one_def split_blank index0_def)

lemma correlate_one_nonblank:
  "\<exists>c \<in> set (payload cmd). \<not> is_space c \<Longrightarrow> \<exists>x. correlate_one statuses items cmd = Inr x"
  using split_empty_iff [of "payload cmd"]
  by (auto simp: correlate_one_def index0_def Let_def split: list.splits)

section \<open>The correlation of one command in closed form\<close>

lemma attach_mqtt_eq:
  "attach_mqtt cmd statuses c0 = c0\<lparr>mqtt_responses := mqtt_responses c0 @ bus_matches cmd statuses\<rparr>"
  unfolding attach_mqtt_def bus_matches_def
  by (induction statuses arbitrary: c0) auto

lemma attach_tag_eq:
  "attach_tag kw tg logs c0 = c0\<lparr>serial_responses := serial_responses c0 @
     map (\<lambda>log. \<lparr>resp_tag = tg, resp_message = message log\<rparr>)
       (filter (\<lambda>log. str_in kw (lower (message log))) logs)\<rparr>"
  unfolding attach_tag_def
  by (induction logs arbitrary: c0) auto

lemma attach_serial_eq:
  "attach_serial kw items c0 =
     c0\<lparr>serial_responses := serial_responses c0 @ device_matches kw items\<rparr>"
  unfolding attach_serial_def device_matches_def
  by (induction items arbitrary: c0) (auto simp: attach_tag_eq)

lemma correlate_one_eq:
  "correlate_one statuses items cmd =
     (case split (payload cmd) of [] \<Rightarrow> Inl IndexError
      | w # ws \<Rightarrow> Inr \<lparr>command = payload cmd, cmd_topic = topic cmd,
          mqtt_responses = bus_matches cmd statuses,
          serial_responses = device_matches (lower w) items\<rparr>)"
  by (simp add: correlate_one_def index0_def attach_mqtt_eq attach_serial_eq split: list.splits)

lemma correlate_loop_raises:
  "\<exists>cmd \<in> set cmds. split (payload cmd) = [] \<Longrightarrow>
     correlate_loop statuses items acc cmds = Inl IndexError"
proof (induction cmds arbitrary: acc)
  case Nil
  then show ?case by simp
next
  case (Cons cmd cmds)
  show ?case
  proof (cases "split (payload cmd)")
    case Nil
    then show ?thesis by (simp add: correlate_one_eq)
  next
    case (Cons w ws)
    with Cons.prems have "\<exists>cmd \<in> set cmds. split (payload cmd) = []" by auto
    from Cons.IH [OF this] Cons show ?thesis by (simp add: correlate_one_eq)
  qed
qed

lemma correlate_loop_returns:
  "\<forall>cmd \<in> set cmds. split (payload cmd) \<noteq> [] \<Longrightarrow>
     correlate_loop statuses items acc cmds =
       Inr (acc @ map (\<lambda>cmd. \<lparr>command = payload cmd, cmd_topic = topic cmd,
              mqtt_responses = bus_matches cmd statuses,
              serial_responses = device_matches (lower (hd (split (payload cmd)))) items\<rparr>) cmds)"
proof (induction cmds arbitrary: acc)
  case Nil
  then show ?case by simp
next
  case (Cons cmd cmds)
  then obtain w ws where w: "split (payload cmd) = w # ws" by (cases "split (payload cmd)") auto
  from Cons.prems have "\<forall>cmd \<in> set cmds. split (payload cmd) \<noteq> []" by simp
  from Cons.IH [OF this] w show ?case by (simp add: correlate_one_eq)
qed

section \<open>Leaving the clock out\<close>

lemma erase_dict_append:
  "erase_topics (dict_append k e d) = dict_append k (erase_entry e) (erase_topics d)"
  unfolding erase_topics_def by (induction d) auto

lemma erase_categorize:
  "erase_results (categorize e r) = categorize (erase_entry e) (erase_results r)"
  by (simp add: categorize_def Let_def erase_results_def erase_dict_append erase_entry_def)

lemma erase_mqtt_line:
  assumes "erase_results r = erase_results r'"
  shows "erase_results (snd (mqtt_line clk (n, r) line)) =
         erase_results (snd (mqtt_line clk' (n', r') line))"
proof (cases "str_in ''[MQTT]'' line")
  case False
  then show ?thesis using assms by (simp add: mqtt_line_def)
next
  case True
  have upd: "erase_results (x\<lparr>total_messages := k\<rparr>) = (erase_results x)\<lparr>total_messages := k\<rparr>"
    for x k by (simp add: erase_results_def)
  have "total_messages (erase_results r) = total_messages (erase_results r')"
    using assms by simp
  then have tm: "total_messages r = total_messages r'"
    by (simp add: erase_results_def)
  have t: "erase_results (r\<lparr>total_messages := total_messages r + 1\<rparr>) =
           erase_results (r'\<lparr>total_messages := total_messages r' + 1\<rparr>)"
    unfolding upd using assms tm by simp
  show ?thesis
  proof (cases "search_mqtt line")
    case None
    with True t show ?thesis by (simp add: mqtt_line_def)
  next
    case (Some g)
    obtain tp pl where g: "g = (tp, pl)" by (cases g)
    have "erase_entry \<lparr>topic = tp, payload = strip pl, mqtt_timestamp = clk n\<rparr> =
          erase_entry \<lparr>topic = tp, payload = strip pl, mqtt_timestamp = clk' n'\<rparr>"
      by (simp add: erase_entry_def)
    with True Some g t show ?thesis
      by (simp add: mqtt_line_def erase_categorize)
  qed
qed

section \<open>Bus-side matching\<close>

text \<open>
  Claim C5. The loop of lines 120--122 attaches to a command exactly the status messages
  whose lower-cased payload has the command's lower-cased payload as a contiguous piece,
  in the order of the status list; and whenever \<open>correlate_command_responses\<close> returns its
  list, the bus-side responses of the correlations are, command by command, these
  selections from the one status list, so that a status matching several commands is
  attached to each of them.
\<close>

theorem bus_side_match:
  "mqtt_responses (attach_mqtt cmd statuses c0) = mqtt_responses c0 @
     filter (\<lambda>status. \<exists>pre post. lower (payload status) = pre @ lower (payload cmd) @ post) statuses
   \<and> (analyze_mqtt_log clk n mqtt_file = (n', mqtt_data) \<longrightarrow>
      correlate_command_responses clk n serial_file mqtt_file = (n', Inr cs) \<longrightarrow>
      map mqtt_responses cs =
        map (\<lambda>cmd. filter (\<lambda>status. \<exists>pre post.
                       lower (payload status) = pre @ lower (payload cmd) @ post)
                     (get_status_messages mqtt_data))
            (get_commands_sent mqtt_data))"
proof (intro conjI impI)
  show "mqtt_responses (attach_mqtt cmd statuses c0) = mqtt_responses c0 @
     filter (\<lambda>status. \<exists>pre post. lower (payload status) = pre @ lower (payload cmd) @ post) statuses"
    by (simp add: attach_mqtt_responses str_in_iff)
next
  assume a: "analyze_mqtt_log clk n mqtt_file = (n', mqtt_data)"
    and c: "correlate_command_responses clk n serial_file mqtt_file = (n', Inr cs)"
  from a c have "correlate_loop (get_status_messages mqtt_data)
      (get_esp_logs (analyze_serial_log serial_file)) [] (get_commands_sent mqtt_data) = Inr cs"
    by (simp add: correlate_command_responses_def correlate_data_def)
  from correlate_loop_mqtt [OF this]
  show "map mqtt_responses cs =
        map (\<lambda>cmd. filter (\<lambda>status. \<exists>pre post.
                       lower (payload status) = pre @ lower (payload cmd) @ post)
                     (get_status_messages mqtt_data))
            (get_commands_sent mqtt_data)"
    by (simp add: str_in_iff)
qed

theorem bus_side_match_witness:
  "analyze_mqtt_log tick 0 (Some mqtt_example) = (4, Inr mqtt_example_data)
   \<and> correlate_command_responses tick 0 (Some serial_example) (Some mqtt_example) =
       (4, Inr mqtt_example_correlations)
   \<and> map mqtt_responses mqtt_example_correlations =
       map (\<lambda>cmd. filter (\<lambda>status. \<exists>pre post.
                      lower (payload status) = pre @ lower (payload cmd) @ post)
                    (get_status_messages (Inr mqtt_example_data)))
           (get_commands_sent (Inr mqtt_example_data))"
proof -
  have a: "analyze_mqtt_log tick 0 (Some mqtt_example) = (4, Inr mqtt_example_data)"
    by code_simp
  have c: "correlate_command_responses tick 0 (Some serial_example) (Some mqtt_example) =
       (4, Inr mqtt_example_correlations)"
    by code_simp
  have r: "map mqtt_responses mqtt_example_correlations =
       map (\<lambda>cmd. filter (\<lambda>status. \<exists>pre post.
                      lower (payload status) = pre @ lower (payload cmd) @ post)
                    (get_status_messages (Inr mqtt_example_data)))
           (get_commands_sent (Inr mqtt_example_data))"
    by (rule bus_side_match [THEN conjunct2, rule_format, OF a c])
  show ?thesis
    by (rule conjI [OF a conjI [OF c r]])
qed

section \<open>Commands with a blank payload\<close>

text \<open>
  Claim C1. The claim says that a command whose payload is empty or white space gets the
  empty keyword and every device record, and that the correlator never raises. In the code
  such a payload splits into no token and line 125 raises \<open>IndexError\<close>: here the serial
  log holds records and the MQTT log one command whose payload is a single blank, stripped
  to the empty string; a line feed at the end of the line changes nothing.
\<close>

theorem blank_payload_raises:
  "analyze_mqtt_log tick 0 (Some mqtt_blank_command) =
     (1, Inr \<lparr>total_messages = 1,
        topics = [(''wordclock/command'',
           [\<lparr>topic = ''wordclock/command'', payload = '''', mqtt_timestamp = ''T''\<rparr>])],
        commands_sent = [\<lparr>topic = ''wordclock/command'', payload = '''', mqtt_timestamp = ''T''\<rparr>],
        responses_received = [], home_assistant_configs = 0, status_messages = []\<rparr>)
   \<and> correlate_command_responses tick 0 (Some serial_example) (Some mqtt_blank_command) =
     (1, Inl IndexError)
   \<and> correlate_command_responses tick 0 (Some serial_example) (Some mqtt_blank_command_lf) =
     (1, Inl IndexError)"
  by code_simp

section \<open>Categories of MQTT entries\<close>

lemma length_dict_append:
  "length (concat (map snd (dict_append k v d))) = Suc (length (concat (map snd d)))"
  by (induction d) auto

lemma categorize_topics: "topics (categorize e r) = dict_append (topic e) e (topics r)"
  by (simp add: categorize_def Let_def)

lemma categorize_count:
  "length (commands_sent (categorize e r)) + length (status_messages (categorize e r)) +
     home_assistant_configs (categorize e r)
   \<le> Suc (length (commands_sent r) + length (status_messages r) + home_assistant_configs r)"
  by (simp add: categorize_def Let_def)

lemma mqtt_line_count:
  assumes "categorised r \<le> indexed r"
  shows "categorised (snd (mqtt_line clk (n, r) line)) \<le> indexed (snd (mqtt_line clk (n, r) line))"
proof (cases "str_in ''[MQTT]'' line")
  case False
  then show ?thesis using assms by (simp add: mqtt_line_def)
next
  case True
  let ?r1 = "r\<lparr>total_messages := total_messages r + 1\<rparr>"
  have c1: "categorised ?r1 = categorised r" and i1: "indexed ?r1 = indexed r"
    by (simp_all add: categorised_def indexed_def)
  show ?thesis
  proof (cases "search_mqtt line")
    case None
    with True have "snd (mqtt_line clk (n, r) line) = ?r1"
      by (simp add: mqtt_line_def)
    then show ?thesis using assms c1 i1 by simp
  next
    case (Some g)
    obtain tp pl where g: "g = (tp, pl)" by (cases g)
    let ?e = "\<lparr>topic = tp, payload = strip pl, mqtt_timestamp = clk n\<rparr>"
    from True Some g have res: "snd (mqtt_line clk (n, r) line) = categorize ?e ?r1"
      by (simp add: mqtt_line_def)
    have "categorised (categorize ?e ?r1) \<le> Suc (categorised ?r1)"
      using categorize_count [of ?e ?r1] by (simp add: categorised_def)
    moreover have "indexed (categorize ?e ?r1) = Suc (indexed ?r1)"
      by (simp add: indexed_def categorize_topics length_dict_append)
    ultimately show ?thesis using assms c1 i1 res by simp
  qed
qed

lemma mqtt_fold_count:
  "categorised r \<le> indexed r \<Longrightarrow>
     categorised (snd (foldl (mqtt_line clk) (n, r) lines)) \<le>
     indexed (snd (foldl (mqtt_line clk) (n, r) lines))"
proof (induction lines arbitrary: n r)
  case Nil
  then show ?case by simp
next
  case (Cons l ls)
  obtain n1 r1 where st: "mqtt_line clk (n, r) l = (n1, r1)" by (cases "mqtt_line clk (n, r) l")
  with mqtt_line_count [OF Cons.prems, of clk n l] have "categorised r1 \<le> indexed r1" by simp
  from Cons.IH [OF this] st show ?case by simp
qed

text \<open>
  Claim C10. One parsed entry is put in at most one category and the first test that
  succeeds decides: a topic containing \<open>/command\<close> makes the entry a command only,
  whatever else the topic contains; otherwise \<open>/status\<close> makes it a status message only;
  otherwise \<open>homeassistant/\<close> only raises the counter; otherwise no category changes.
  Over a whole log the three categories together never hold more records than the topic
  index.
\<close>

theorem categorize_exclusive:
  "(str_in ''/command'' (topic e) \<longrightarrow>
      commands_sent (categorize e r) = commands_sent r @ [e] \<and>
      status_messages (categorize e r) = status_messages r \<and>
      home_assistant_configs (categorize e r) = home_assistant_configs r)
   \<and> (\<not> str_in ''/command'' (topic e) \<and> str_in ''/status'' (topic e) \<longrightarrow>
      commands_sent (categorize e r) = commands_sent r \<and>
      status_messages (categorize e r) = status_messages r @ [e] \<and>
      home_assistant_configs (categorize e r) = home_assistant_configs r)
   \<and> (\<not> str_in ''/command'' (topic e) \<and> \<not> str_in ''/status'' (topic e) \<and>
        str_in ''homeassistant/'' (topic e) \<longrightarrow>
      commands_sent (categorize e r) = commands_sent r \<and>
      status_messages (categorize e r) = status_messages r \<and>
      home_assistant_configs (categorize e r) = home_assistant_configs r + 1)
   \<and> (\<not> str_in ''/command'' (topic e) \<and> \<not> str_in ''/status'' (topic e) \<and>
        \<not> str_in ''homeassistant/'' (topic e) \<longrightarrow>
      commands_sent (categorize e r) = commands_sent r \<and>
      status_messages (categorize e r) = status_messages r \<and>
      home_assistant_configs (categorize e r) = home_assistant_configs r)
   \<and> categorised (categorize e r) \<le> categorised r + 1
   \<and> (analyze_mqtt_log clk n (Some lines) = (n', Inr res) \<longrightarrow> categorised res \<le> indexed res)"
proof -
  have run: "categorised res \<le> indexed res"
    if "analyze_mqtt_log clk n (Some lines) = (n', Inr res)"
  proof -
    have "categorised mqtt_init \<le> indexed mqtt_init"
      by (simp add: categorised_def indexed_def mqtt_init_def)
    from mqtt_fold_count [OF this, of clk n lines] that show ?thesis
      by (auto simp: analyze_mqtt_log_def split: prod.splits)
  qed
  have step: "categorised (categorize e r) \<le> categorised r + 1"
    using categorize_count [of e r] by (simp add: categorised_def)
  show ?thesis
    using run step by (simp add: categorize_def Let_def)
qed

theorem categorize_exclusive_witness:
  "(str_in ''/command'' (topic entry_command_status) \<and> str_in ''/status'' (topic entry_command_status) \<and>
    commands_sent (categorize entry_command_status mqtt_init) = [entry_command_status] \<and>
    status_messages (categorize entry_command_status mqtt_init) = [] \<and>
    home_assistant_configs (categorize entry_command_status mqtt_init) = 0)
   \<and> (\<not> str_in ''/command'' (topic entry_ha_status) \<and> str_in ''/status'' (topic entry_ha_status) \<and>
    str_in ''homeassistant/'' (topic entry_ha_status) \<and>
    commands_sent (categorize entry_ha_status mqtt_init) = [] \<and>
    status_messages (categorize entry_ha_status mqtt_init) = [entry_ha_status] \<and>
    home_assistant_configs (categorize entry_ha_status mqtt_init) = 0)
   \<and> (\<not> str_in ''/command'' (topic entry_ha_config) \<and> \<not> str_in ''/status'' (topic entry_ha_config) \<and>
    str_in ''homeassistant/'' (topic entry_ha_config) \<and>
    commands_sent (categorize entry_ha_config mqtt_init) = [] \<and>
    status_messages (categorize entry_ha_config mqtt_init) = [] \<and>
    home_assistant_configs (categorize entry_ha_config mqtt_init) = 1)
   \<and> (\<not> str_in ''/command'' (topic entry_other) \<and> \<not> str_in ''/status'' (topic entry_other) \<and>
    \<not> str_in ''homeassistant/'' (topic entry_other) \<and>
    commands_sent (categorize entry_other mqtt_init) = [] \<and>
    status_messages (categorize entry_other mqtt_init) = [] \<and>
    home_assistant_configs (categorize entry_other mqtt_init) = 0)
   \<and> analyze_mqtt_log tick 0 (Some mqtt_example) = (4, Inr mqtt_example_data)
   \<and> categorised mqtt_example_data \<le> indexed mqtt_example_data"
proof -
  have t1: "str_in ''/command'' (topic entry_command_status)"
    and t2: "str_in ''/status'' (topic entry_command_status)"
    and t3: "\<not> str_in ''/command'' (topic entry_ha_status)"
    and t4: "str_in ''/status'' (topic entry_ha_status)"
    and t5: "str_in ''homeassistant/'' (topic entry_ha_status)"
    and t6: "\<not> str_in ''/command'' (topic entry_ha_config)"
    and t7: "\<not> str_in ''/status'' (topic entry_ha_config)"
    and t8: "str_in ''homeassistant/'' (topic entry_ha_config)"
    and t9: "\<not> str_in ''/command'' (topic entry_other)"
    and t10: "\<not> str_in ''/status'' (topic entry_other)"
    and t11: "\<not> str_in ''homeassistant/'' (topic entry_other)"
    by code_simp+
  have a: "analyze_mqtt_log tick 0 (Some mqtt_example) = (4, Inr mqtt_example_data)"
    by code_simp
  have i: "commands_sent mqtt_init = []" "status_messages mqtt_init = []"
    "home_assistant_configs mqtt_init = 0"
    by (simp_all add: mqtt_init_def)
  note w1 = categorize_exclusive [of entry_command_status mqtt_init tick 0 mqtt_example 4 mqtt_example_data]
  note w2 = categorize_exclusive [of entry_ha_status mqtt_init tick 0 mqtt_example 4 mqtt_example_data]
  note w3 = categorize_exclusive [of entry_ha_config mqtt_init tick 0 mqtt_example 4 mqtt_example_data]
  note w4 = categorize_exclusive [of entry_other mqtt_init tick 0 mqtt_example 4 mqtt_example_data]
  have c1: "commands_sent (categorize entry_command_status mqtt_init) = [entry_command_status] \<and>
    status_messages (categorize entry_command_status mqtt_init) = [] \<and>
    home_assistant_configs (categorize entry_command_status mqtt_init) = 0"
    using w1 t1 i by simp
  have c2: "commands_sent (categorize entry_ha_status mqtt_init) = [] \<and>
    status_messages (categorize entry_ha_status mqtt_init) = [entry_ha_status] \<and>
    home_assistant_configs (categorize entry_ha_status mqtt_init) = 0"
    using w2 t3 t4 i by simp
  have c3: "commands_sent (categorize entry_ha_config mqtt_init) = [] \<and>
    status_messages (categorize entry_ha_config mqtt_init) = [] \<and>
    home_assistant_configs (categorize entry_ha_config mqtt_init) = 1"
    using w3 t6 t7 t8 i by simp
  have c4: "commands_sent (categorize entry_other mqtt_init) = [] \<and>
    status_messages (categorize entry_other mqtt_init) = [] \<and>
    home_assistant_configs (categorize entry_other mqtt_init) = 0"
    using w4 t9 t10 t11 i by simp
  have c5: "categorised mqtt_example_data \<le> indexed mqtt_example_data"
    using w1 a by blast
  show ?thesis
    using t1 t2 t3 t4 t5 t6 t7 t8 t9 t10 t11 c1 c2 c3 c4 c5 a by blast
qed

section \<open>The record made from a structured line\<close>

text \<open>
  Claim C2 as the spec states it fails on \<open>line_debug\<close>: the pattern matches with the
  level \<open>D\<close> and the message \<open>scan done\<close> followed by a blank; the record enters the tag
  index, it enters none of the three severity lists, and its message has lost the blank.
\<close>

theorem classifier_counterexample:
  "search_esp line_debug = Some (CHR ''D'', ''7'', ''wifi'', ''scan done '')
   \<and> serial_line serial_init line_debug =
       \<lparr>total_lines = 1, errors = [], warnings = [], info_messages = [],
        esp_logs = [(''wifi'', [\<lparr>timestamp = ''7'', tag = ''wifi'', message = ''scan done''\<rparr>])],
        reboots = [], timestamps = []\<rparr>
   \<and> ''scan done'' \<noteq> ''scan done ''"
  by code_simp

text \<open>
  Claim C2, amended. When the pattern is found in a line, its four groups are a contiguous
  piece of the line: a level among \<open>E\<close>, \<open>W\<close>, \<open>I\<close>, \<open>D\<close>, digits, a tag of word
  characters and a message without line feed. The record keeps the tag as matched and the
  message with white space removed at both ends and nothing else changed. It is appended to
  the errors, the warnings or the info messages when the level is \<open>E\<close>, \<open>W\<close> or \<open>I\<close>, to
  none of them when it is \<open>D\<close>, and in every case to the list of its tag in the index.
\<close>

theorem classifier_record:
  assumes "search_esp line = Some (level, ts, tg, msg)"
  shows "(\<exists>pre post. line = pre @ [level] @ '' ('' @ ts @ '') '' @ tg @ '': '' @ msg @ post)
    \<and> (level = CHR ''E'' \<or> level = CHR ''W'' \<or> level = CHR ''I'' \<or> level = CHR ''D'')
    \<and> ts \<noteq> [] \<and> (\<forall>c \<in> set ts. is_digit c)
    \<and> tg \<noteq> [] \<and> (\<forall>c \<in> set tg. is_word c)
    \<and> msg \<noteq> [] \<and> (\<forall>c \<in> set msg. is_dot c)
    \<and> (\<exists>a b. msg = a @ strip msg @ b \<and> (\<forall>c \<in> set a. is_space c) \<and> (\<forall>c \<in> set b. is_space c))
    \<and> (strip msg = [] \<or> (\<not> is_space (hd (strip msg)) \<and> \<not> is_space (last (strip msg))))
    \<and> errors (serial_line r line) = errors r @
         (if level = CHR ''E'' then [\<lparr>timestamp = ts, tag = tg, message = strip msg\<rparr>] else [])
    \<and> warnings (serial_line r line) = warnings r @
         (if level = CHR ''W'' then [\<lparr>timestamp = ts, tag = tg, message = strip msg\<rparr>] else [])
    \<and> info_messages (serial_line r line) = info_messages r @
         (if level = CHR ''I'' then [\<lparr>timestamp = ts, tag = tg, message = strip msg\<rparr>] else [])
    \<and> esp_logs (serial_line r line) =
         dict_append tg \<lparr>timestamp = ts, tag = tg, message = strip msg\<rparr> (esp_logs r)"
proof -
  from search_esp_Some [OF assms] obtain pre s where
    line: "line = pre @ s" and m: "match_esp s = Some (level, ts, tg, msg)" by blast
  from match_esp_Some(1) [OF m] obtain post where
    "s = [level] @ '' ('' @ ts @ '') '' @ tg @ '': '' @ msg @ post" by blast
  with line have "line = pre @ [level] @ '' ('' @ ts @ '') '' @ tg @ '': '' @ msg @ post" by simp
  then have piece: "\<exists>pre post. line = pre @ [level] @ '' ('' @ ts @ '') '' @ tg @ '': '' @ msg @ post"
    by blast
  have lv: "level = CHR ''E'' \<or> level = CHR ''W'' \<or> level = CHR ''I'' \<or> level = CHR ''D''"
    using match_esp_Some(2) [OF m] by auto
  have fields:
    "errors (serial_line r line) = errors r @
         (if level = CHR ''E'' then [\<lparr>timestamp = ts, tag = tg, message = strip msg\<rparr>] else [])"
    "warnings (serial_line r line) = warnings r @
         (if level = CHR ''W'' then [\<lparr>timestamp = ts, tag = tg, message = strip msg\<rparr>] else [])"
    "info_messages (serial_line r line) = info_messages r @
         (if level = CHR ''I'' then [\<lparr>timestamp = ts, tag = tg, message = strip msg\<rparr>] else [])"
    "esp_logs (serial_line r line) =
         dict_append tg \<lparr>timestamp = ts, tag = tg, message = strip msg\<rparr> (esp_logs r)"
    using assms by (simp_all add: serial_line_fields add_entry_fields)
  show ?thesis
    using piece lv match_esp_Some(3,4,5) [OF m] strip_decomp [of msg] strip_ends [of msg] fields
    by blast
qed

theorem classifier_record_witness:
  "search_esp ''E (1234) wifi: connection lost'' =
     Some (CHR ''E'', ''1234'', ''wifi'', ''connection lost'')
   \<and> strip ''connection lost'' = ''connection lost''
   \<and> errors (serial_line serial_init ''E (1234) wifi: connection lost'') =
       [\<lparr>timestamp = ''1234'', tag = ''wifi'', message = ''connection lost''\<rparr>]
   \<and> warnings (serial_line serial_init ''E (1234) wifi: connection lost'') = []
   \<and> info_messages (serial_line serial_init ''E (1234) wifi: connection lost'') = []
   \<and> esp_logs (serial_line serial_init ''E (1234) wifi: connection lost'') =
       [(''wifi'', [\<lparr>timestamp = ''1234'', tag = ''wifi'', message = ''connection lost''\<rparr>])]"
proof -
  have s: "search_esp ''E (1234) wifi: connection lost'' =
     Some (CHR ''E'', ''1234'', ''wifi'', ''connection lost'')"
    by code_simp
  have t: "strip ''connection lost'' = ''connection lost''"
    by code_simp
  have i: "errors serial_init = []" "warnings serial_init = []" "info_messages serial_init = []"
    "esp_logs serial_init = []"
    by (simp_all add: serial_init_def)
  from classifier_record [OF s, of serial_init] show ?thesis
    using s t i by simp
qed

section \<open>Restart banners\<close>

text \<open>
  Claim C3 as the spec states it fails on \<open>line_error_reboot\<close>: the line matches the
  structured grammar and is tested for a restart banner all the same, and the one line
  adds a record to the errors and to the tag index and a restart to \<open>reboots\<close>.
\<close>

theorem restart_counterexample:
  "search_esp line_error_reboot = Some (CHR ''E'', ''9'', ''boot'', ''Rebooting...'')
   \<and> is_reboot line_error_reboot
   \<and> serial_line serial_init line_error_reboot =
       \<lparr>total_lines = 1,
        errors = [\<lparr>timestamp = ''9'', tag = ''boot'', message = ''Rebooting...''\<rparr>],
        warnings = [], info_messages = [],
        esp_logs = [(''boot'', [\<lparr>timestamp = ''9'', tag = ''boot'', message = ''Rebooting...''\<rparr>])],
        reboots = [''E (9) boot: Rebooting...''], timestamps = []\<rparr>"
  by code_simp

text \<open>
  Claim C3, amended. Every line is tested for a restart banner, whether or not it matches
  the structured grammar: the line is a banner when it contains \<open>ESP-ROM:esp32\<close> or
  \<open>Rebooting...\<close>, and then its stripped text is appended to \<open>reboots\<close>, which no other
  line changes. A banner line that does not match the structured grammar adds nothing to
  the three severity lists and nothing to the tag index.
\<close>

theorem restart_banner:
  "(is_reboot line \<longleftrightarrow>
      (\<exists>pre post. line = pre @ ''ESP-ROM:esp32'' @ post) \<or>
      (\<exists>pre post. line = pre @ ''Rebooting...'' @ post))
   \<and> reboots (serial_line r line) = reboots r @ (if is_reboot line then [strip line] else [])
   \<and> (search_esp line = None \<longrightarrow>
        errors (serial_line r line) = errors r \<and>
        warnings (serial_line r line) = warnings r \<and>
        info_messages (serial_line r line) = info_messages r \<and>
        esp_logs (serial_line r line) = esp_logs r)"
  by (simp add: serial_line_fields is_reboot_def str_in_iff)

theorem restart_banner_witness:
  "is_reboot line_banner \<and> search_esp line_banner = None
   \<and> reboots (serial_line serial_init line_banner) = [''ESP-ROM:esp32s3-20210327'']
   \<and> errors (serial_line serial_init line_banner) = []
   \<and> warnings (serial_line serial_init line_banner) = []
   \<and> info_messages (serial_line serial_init line_banner) = []
   \<and> esp_logs (serial_line serial_init line_banner) = []"
proof -
  have b: "is_reboot line_banner" by code_simp
  have s: "search_esp line_banner = None" by code_simp
  have t: "strip line_banner = ''ESP-ROM:esp32s3-20210327''" by code_simp
  have i: "errors serial_init = []" "warnings serial_init = []" "info_messages serial_init = []"
    "esp_logs serial_init = []" "reboots serial_init = []"
    by (simp_all add: serial_init_def)
  from restart_banner [of line_banner serial_init] show ?thesis
    using b s t i by simp
qed

section \<open>Field names of the report\<close>

text \<open>
  Claim C9 as the spec states it fails on an empty serial log and an MQTT log of one
  command: the top-level fields of the
  document are not \<open>device_summary\<close>, \<open>bus_summary\<close>, \<open>correlations\<close>, \<open>generated_at\<close>, and
  the fields of a correlation are not \<open>command\<close>, \<open>bus_responses\<close>, \<open>device_responses\<close>.
\<close>

theorem report_fields_counterexample:
  "map_sum id keys (generate_report tick 0 (Some []) (Some mqtt_one_command)) =
     Inr [''serial_analysis'', ''mqtt_analysis'', ''correlations'', ''timestamp'']
   \<and> [''serial_analysis'', ''mqtt_analysis'', ''correlations'', ''timestamp''] \<noteq>
       [''device_summary'', ''bus_summary'', ''correlations'', ''generated_at'']
   \<and> map_sum id correlation_keys (generate_report tick 0 (Some []) (Some mqtt_one_command)) =
     Inr [[''command'', ''topic'', ''mqtt_responses'', ''serial_responses'']]
   \<and> [''command'', ''topic'', ''mqtt_responses'', ''serial_responses''] \<noteq>
       [''command'', ''bus_responses'', ''device_responses'']"
  by code_simp

text \<open>
  Claim C9, amended. Whenever \<open>generate_report\<close> reaches \<open>json.dump\<close>, the document has
  the top-level fields \<open>serial_analysis\<close>, \<open>mqtt_analysis\<close>, \<open>correlations\<close>, \<open>timestamp\<close>,
  in this order; \<open>correlations\<close> is an array whose elements each have the fields
  \<open>command\<close>, \<open>topic\<close>, \<open>mqtt_responses\<close>, \<open>serial_responses\<close>; and each of the two
  analyses has the fields of its results, or the one field \<open>error\<close> when its log file is
  missing.
\<close>

theorem report_fields:
  assumes "generate_report clk n serial_file mqtt_file = Inr doc"
  shows "keys doc = [''serial_analysis'', ''mqtt_analysis'', ''correlations'', ''timestamp'']
    \<and> (\<exists>cs. field doc ''correlations'' = Some (JArray cs) \<and>
          (\<forall>c \<in> set cs. keys c = [''command'', ''topic'', ''mqtt_responses'', ''serial_responses'']))
    \<and> (\<exists>sa. field doc ''serial_analysis'' = Some sa \<and>
          keys sa = (if serial_file = None then [''error'']
                     else [''total_lines'', ''errors'', ''warnings'', ''info_messages'',
                           ''esp_logs'', ''reboots'', ''timestamps'']))
    \<and> (\<exists>ma. field doc ''mqtt_analysis'' = Some ma \<and>
          keys ma = (if mqtt_file = None then [''error'']
                     else [''total_messages'', ''topics'', ''commands_sent'', ''responses_received'',
                           ''home_assistant_configs'', ''status_messages'']))"
proof -
  obtain n2 sd md res where run: "run_analyses clk n serial_file mqtt_file = (n2, sd, md, res)"
    by (cases "run_analyses clk n serial_file mqtt_file") auto
  with assms obtain cors where res: "res = Inr cors"
    by (cases res) (auto simp: generate_report_def)
  from assms run res have doc: "doc = JObject
             [(''serial_analysis'', json_serial sd),
              (''mqtt_analysis'', json_mqtt md),
              (''correlations'', JArray (map json_correlation cors)),
              (''timestamp'', JString (clk (Suc n2)))]"
    by (simp add: generate_report_def)
  obtain n1 where a: "analyze_mqtt_log clk n mqtt_file = (n1, md)"
    and sd: "sd = analyze_serial_log serial_file"
    using run by (auto simp: run_analyses_def Let_def split: prod.splits)
  have k1: "keys doc = [''serial_analysis'', ''mqtt_analysis'', ''correlations'', ''timestamp'']"
    by (simp add: doc keys_def)
  have k2: "field doc ''correlations'' = Some (JArray (map json_correlation cors))"
    by (simp add: doc field_def)
  have k3: "\<forall>c \<in> set (map json_correlation cors).
      keys c = [''command'', ''topic'', ''mqtt_responses'', ''serial_responses'']"
    by (simp add: json_correlation_def keys_def)
  have k4: "field doc ''serial_analysis'' = Some (json_serial sd)"
    by (simp add: doc field_def)
  have k5: "keys (json_serial sd) = (if serial_file = None then [''error'']
                     else [''total_lines'', ''errors'', ''warnings'', ''info_messages'',
                           ''esp_logs'', ''reboots'', ''timestamps''])"
    by (cases serial_file) (simp_all add: sd analyze_serial_log_def json_serial_def keys_def)
  have k6: "field doc ''mqtt_analysis'' = Some (json_mqtt md)"
    by (simp add: doc field_def)
  have k7: "keys (json_mqtt md) = (if mqtt_file = None then [''error'']
                     else [''total_messages'', ''topics'', ''commands_sent'', ''responses_received'',
                           ''home_assistant_configs'', ''status_messages''])"
    using a by (cases mqtt_file) (auto simp: analyze_mqtt_log_def json_mqtt_def keys_def split: prod.splits)
  show ?thesis using k1 k2 k3 k4 k5 k6 k7 by blast
qed

theorem report_fields_witness:
  "generate_report tick 0 (Some []) (Some mqtt_one_command) = Inr report_one_command
   \<and> keys report_one_command = [''serial_analysis'', ''mqtt_analysis'', ''correlations'', ''timestamp'']
   \<and> correlation_keys report_one_command =
       [[''command'', ''topic'', ''mqtt_responses'', ''serial_responses'']]"
proof -
  have g: "generate_report tick 0 (Some []) (Some mqtt_one_command) = Inr report_one_command"
    by code_simp
  have c: "field report_one_command ''correlations'' =
      Some (JArray [JObject [(''command'', JString ''go''), (''topic'', JString ''a/command''),
             (''mqtt_responses'', JArray []), (''serial_responses'', JArray [])]])"
    by (simp add: report_one_command_def field_def)
  from report_fields [OF g] c show ?thesis
    using g by (simp add: correlation_keys_def)
qed

section \<open>What the results depend on\<close>

lemma erase_fold:
  "erase_results r = erase_results r' \<Longrightarrow>
     erase_results (snd (foldl (mqtt_line clk) (n, r) lines)) =
     erase_results (snd (foldl (mqtt_line clk') (n', r') lines))"
proof (induction lines arbitrary: n n' r r')
  case Nil
  then show ?case by simp
next
  case (Cons l ls)
  obtain n1 r1 where s1: "mqtt_line clk (n, r) l = (n1, r1)" by (cases "mqtt_line clk (n, r) l")
  obtain n2 r2 where s2: "mqtt_line clk' (n', r') l = (n2, r2)" by (cases "mqtt_line clk' (n', r') l")
  from erase_mqtt_line [OF Cons.prems, of clk n l clk' n'] s1 s2
  have "erase_results r1 = erase_results r2" by simp
  from Cons.IH [OF this] s1 s2 show ?case by simp
qed

lemma erase_analyze_mqtt:
  "map_sum id erase_results (snd (analyze_mqtt_log clk n file)) =
   map_sum id erase_results (snd (analyze_mqtt_log clk' n' file))"
proof (cases "file")
  case None
  then show ?thesis by (simp add: analyze_mqtt_log_def)
next
  case (Some lines)
  obtain n1 r1 where f1: "foldl (mqtt_line clk) (n, mqtt_init) lines = (n1, r1)"
    by (cases "foldl (mqtt_line clk) (n, mqtt_init) lines")
  obtain n2 r2 where f2: "foldl (mqtt_line clk') (n', mqtt_init) lines = (n2, r2)"
    by (cases "foldl (mqtt_line clk') (n', mqtt_init) lines")
  from erase_fold [of mqtt_init mqtt_init clk n lines clk' n'] f1 f2
  have "erase_results r1 = erase_results r2" by simp
  then show ?thesis using Some f1 f2 by (simp add: analyze_mqtt_log_def)
qed

lemma erase_bus_matches:
  "bus_matches (erase_entry cmd) (map erase_entry statuses) = map erase_entry (bus_matches cmd statuses)"
  by (simp add: bus_matches_def erase_entry_def filter_map comp_def)

lemma erase_correlate_one:
  "map_sum id erase_correlation (correlate_one statuses items cmd) =
     correlate_one (map erase_entry statuses) items (erase_entry cmd)"
proof -
  have p: "payload (erase_entry cmd) = payload cmd" "topic (erase_entry cmd) = topic cmd"
    by (simp_all add: erase_entry_def)
  show ?thesis
    by (cases "split (payload cmd)")
      (simp_all add: correlate_one_eq p erase_bus_matches erase_correlation_def)
qed

lemma erase_correlate_loop:
  "map_sum id (map erase_correlation) (correlate_loop statuses items acc cmds) =
     correlate_loop (map erase_entry statuses) items (map erase_correlation acc) (map erase_entry cmds)"
proof (induction cmds arbitrary: acc)
  case Nil
  then show ?case by simp
next
  case (Cons cmd cmds)
  show ?case
  proof (cases "correlate_one statuses items cmd")
    case (Inl e)
    have "correlate_one (map erase_entry statuses) items (erase_entry cmd) = Inl e"
      unfolding erase_correlate_one [symmetric] Inl by simp
    with Inl show ?thesis by simp
  next
    case (Inr c)
    have "correlate_one (map erase_entry statuses) items (erase_entry cmd) = Inr (erase_correlation c)"
      unfolding erase_correlate_one [symmetric] Inr by simp
    with Inr Cons.IH [of "acc @ [c]"] show ?thesis by simp
  qed
qed

lemma erase_getters:
  "get_commands_sent (map_sum id erase_results d) = map erase_entry (get_commands_sent d)"
  "get_status_messages (map_sum id erase_results d) = map erase_entry (get_status_messages d)"
  by (cases d; simp add: get_commands_sent_def get_status_messages_def erase_results_def)+

lemma erase_correlate_data:
  "map_sum id (map erase_correlation) (correlate_data d serial_data) =
     correlate_data (map_sum id erase_results d) serial_data"
  by (simp add: correlate_data_def erase_correlate_loop erase_getters)

text \<open>
  Claim C4 as the spec states it fails on \<open>mqtt_one_command\<close>: the same two logs analysed
  under two clocks give different results, because each MQTT entry carries the reading of
  the clock taken when its line was parsed.
\<close>

theorem purity_counterexample:
  "run_analyses tick 0 (Some []) (Some mqtt_one_command) \<noteq>
   run_analyses tock 0 (Some []) (Some mqtt_one_command)"
  by code_simp

text \<open>
  Claim C4, amended. An analysis run is a function of its two line sequences and of the
  readings of the clock: the parsing, the aggregation and the correlation take nothing
  else, and the readings enter the results only as the \<open>timestamp\<close> of the MQTT entries.
  With these timestamps left out, the results of two runs on the same two line sequences
  are identical, whatever the clocks and the number of readings taken before.
\<close>

theorem analyses_determined_by_lines:
  "erase_analyses (run_analyses clk n serial_file mqtt_file) =
   erase_analyses (run_analyses clk' n' serial_file mqtt_file)"
proof -
  obtain n1 md where a1: "analyze_mqtt_log clk n mqtt_file = (n1, md)"
    by (cases "analyze_mqtt_log clk n mqtt_file")
  obtain n2 md2 where a2: "analyze_mqtt_log clk n1 mqtt_file = (n2, md2)"
    by (cases "analyze_mqtt_log clk n1 mqtt_file")
  obtain n1' md' where b1: "analyze_mqtt_log clk' n' mqtt_file = (n1', md')"
    by (cases "analyze_mqtt_log clk' n' mqtt_file")
  obtain n2' md2' where b2: "analyze_mqtt_log clk' n1' mqtt_file = (n2', md2')"
    by (cases "analyze_mqtt_log clk' n1' mqtt_file")
  have e1: "map_sum id erase_results md = map_sum id erase_results md'"
    using erase_analyze_mqtt [of clk n mqtt_file clk' n'] a1 b1 by simp
  have e2: "map_sum id erase_results md2 = map_sum id erase_results md2'"
    using erase_analyze_mqtt [of clk n1 mqtt_file clk' n1'] a2 b2 by simp
  have c: "map_sum id (map erase_correlation) (correlate_data md2 (analyze_serial_log serial_file)) =
           map_sum id (map erase_correlation) (correlate_data md2' (analyze_serial_log serial_file))"
    by (simp add: erase_correlate_data e2)
  show ?thesis
    using a1 a2 b1 b2 e1 c
    by (simp add: erase_analyses_def run_analyses_def correlate_command_responses_def)
qed

section \<open>The tag index and the list of errors\<close>

lemma dict_append_map:
  "map (\<lambda>(k, vs). (k, map f vs)) (dict_append k v d) =
     dict_append k (f v) (map (\<lambda>(k, vs). (k, map f vs)) d)"
  by (induction d) auto

lemma dict_get_append:
  "dict_get (dict_append k v d) t = (if t = k then dict_get d t @ [v] else dict_get d t)"
  by (induction d) auto

lemma mset_dict_append:
  "mset (concat (map snd (dict_append k v d))) = add_mset v (mset (concat (map snd d)))"
  by (induction d) auto

lemma errors_of_append: "errors_of (xs @ ys) = errors_of xs @ errors_of ys"
  by (simp add: errors_of_def)

lemma mset_errors_of:
  "mset (errors_of xs) = image_mset snd (filter_mset (\<lambda>x. fst x = CHR ''E'') (mset xs))"
  by (simp add: errors_of_def)

text \<open>The three facts below hold after every line of the log.\<close>

lemma level_step:
  assumes "map (\<lambda>(k, vs). (k, map snd vs)) idx = esp_logs r"
    and "mset (errors_of (concat (map snd idx))) = mset (errors r)"
    and "\<forall>t. errors_of (dict_get idx t) = filter (\<lambda>e. tag e = t) (errors r)"
  shows "map (\<lambda>(k, vs). (k, map snd vs)) (level_line idx line) = esp_logs (serial_line r line)"
    and "mset (errors_of (concat (map snd (level_line idx line)))) = mset (errors (serial_line r line))"
    and "\<forall>t. errors_of (dict_get (level_line idx line) t) =
           filter (\<lambda>e. tag e = t) (errors (serial_line r line))"
proof -
  show "map (\<lambda>(k, vs). (k, map snd vs)) (level_line idx line) = esp_logs (serial_line r line)"
    using assms(1)
    by (auto simp: level_line_def serial_line_fields add_entry_fields dict_append_map
        split: option.splits)
  show "mset (errors_of (concat (map snd (level_line idx line)))) = mset (errors (serial_line r line))"
    using assms(2)
    by (auto simp: level_line_def serial_line_fields add_entry_fields mset_errors_of
        mset_dict_append split: option.splits)
  show "\<forall>t. errors_of (dict_get (level_line idx line) t) =
           filter (\<lambda>e. tag e = t) (errors (serial_line r line))"
    using assms(3)
    by (auto simp: level_line_def serial_line_fields add_entry_fields dict_get_append
        errors_of_append errors_of_def split: option.splits)
qed

lemma level_fold:
  assumes "map (\<lambda>(k, vs). (k, map snd vs)) idx = esp_logs r"
    and "mset (errors_of (concat (map snd idx))) = mset (errors r)"
    and "\<forall>t. errors_of (dict_get idx t) = filter (\<lambda>e. tag e = t) (errors r)"
  shows "map (\<lambda>(k, vs). (k, map snd vs)) (foldl level_line idx lines) =
           esp_logs (foldl serial_line r lines)
    \<and> mset (errors_of (concat (map snd (foldl level_line idx lines)))) =
           mset (errors (foldl serial_line r lines))
    \<and> (\<forall>t. errors_of (dict_get (foldl level_line idx lines) t) =
           filter (\<lambda>e. tag e = t) (errors (foldl serial_line r lines)))"
  using assms
proof (induction lines arbitrary: idx r)
  case Nil
  then show ?case by simp
next
  case (Cons l ls)
  from level_step [OF Cons.prems, of l] Cons.IH [of "level_line idx l" "serial_line r l"]
  show ?case by simp
qed

text \<open>
  Claim C8 as the spec states it fails on \<open>serial_interleaved\<close>: the concatenation of the
  per-tag sequences has the two \<open>wifi\<close> errors before the \<open>mqtt\<close> error, and the errors
  list has them in the order of the lines.
\<close>

theorem errors_order_counterexample:
  "analyze_serial_log (Some serial_interleaved) = Inr serial_interleaved_results
   \<and> errors_by_tag serial_interleaved =
       [\<lparr>timestamp = ''1'', tag = ''wifi'', message = ''first''\<rparr>,
        \<lparr>timestamp = ''3'', tag = ''wifi'', message = ''third''\<rparr>,
        \<lparr>timestamp = ''2'', tag = ''mqtt'', message = ''second''\<rparr>]
   \<and> errors_by_tag serial_interleaved \<noteq> errors serial_interleaved_results"
  by code_simp

text \<open>
  Claim C8, amended. For every device-stream input the index \<open>esp_logs\<close> is the levelled
  index with the levels dropped; the records of level \<open>E\<close> in the concatenation of the
  per-tag sequences are, as a multiset, the records of the global errors list; and for each
  single tag the records of level \<open>E\<close> of its sequence are, in order, the records of the
  errors list that have this tag. Across different tags the concatenation follows the
  order of the index, not that of the errors list.
\<close>

theorem errors_grouped_by_tag:
  assumes "analyze_serial_log (Some lines) = Inr r"
  shows "map (\<lambda>(k, vs). (k, map snd vs)) (level_index lines) = esp_logs r
    \<and> mset (errors_by_tag lines) = mset (errors r)
    \<and> (\<forall>t. errors_of (dict_get (level_index lines) t) = filter (\<lambda>e. tag e = t) (errors r))"
proof -
  from assms have r: "r = foldl serial_line serial_init lines"
    by (simp add: analyze_serial_log_def)
  have "map (\<lambda>(k, vs). (k, map snd vs)) [] = esp_logs serial_init"
    and "mset (errors_of (concat (map snd []))) = mset (errors serial_init)"
    and "\<forall>t. errors_of (dict_get [] t) = filter (\<lambda>e. tag e = t) (errors serial_init)"
    by (simp_all add: serial_init_def errors_of_def)
  from level_fold [OF this, of lines] show ?thesis
    by (simp add: r level_index_def errors_by_tag_def)
qed

theorem errors_grouped_by_tag_witness:
  "analyze_serial_log (Some serial_interleaved) = Inr serial_interleaved_results
   \<and> mset (errors_by_tag serial_interleaved) = mset (errors serial_interleaved_results)
   \<and> errors_of (dict_get (level_index serial_interleaved) ''wifi'') =
       [\<lparr>timestamp = ''1'', tag = ''wifi'', message = ''first''\<rparr>,
        \<lparr>timestamp = ''3'', tag = ''wifi'', message = ''third''\<rparr>]"
proof -
  have a: "analyze_serial_log (Some serial_interleaved) = Inr serial_interleaved_results"
    by code_simp
  have f: "filter (\<lambda>e. tag e = ''wifi'') (errors serial_interleaved_results) =
       [\<lparr>timestamp = ''1'', tag = ''wifi'', message = ''first''\<rparr>,
        \<lparr>timestamp = ''3'', tag = ''wifi'', message = ''third''\<rparr>]"
    by (simp add: serial_interleaved_results_def)
  from errors_grouped_by_tag [OF a] have
    m: "mset (errors_by_tag serial_interleaved) = mset (errors serial_interleaved_results)"
    and t: "errors_of (dict_get (level_index serial_interleaved) ''wifi'') =
      filter (\<lambda>e. tag e = ''wifi'') (errors serial_interleaved_results)"
    by blast+
  show ?thesis using a m t f by simp
qed

section \<open>One correlation per command, and missing log files\<close>

text \<open>
  What the correlator returns, in full: \<open>IndexError\<close> when some command has a payload
  without any token, and otherwise one correlation per command, in the order of the
  commands, each with its two selections, which may be empty.
\<close>

lemma correlate_data_raises:
  "\<exists>cmd \<in> set (get_commands_sent mqtt_data). split (payload cmd) = [] \<Longrightarrow>
     correlate_data mqtt_data serial_data = Inl IndexError"
  by (simp add: correlate_data_def correlate_loop_raises)

lemma correlate_data_returns:
  "\<forall>cmd \<in> set (get_commands_sent mqtt_data). split (payload cmd) \<noteq> [] \<Longrightarrow>
     correlate_data mqtt_data serial_data =
       Inr (map (\<lambda>cmd. \<lparr>command = payload cmd, cmd_topic = topic cmd,
              mqtt_responses = bus_matches cmd (get_status_messages mqtt_data),
              serial_responses =
                device_matches (lower (hd (split (payload cmd)))) (get_esp_logs serial_data)\<rparr>)
            (get_commands_sent mqtt_data))"
  using correlate_loop_returns [of "get_commands_sent mqtt_data" "get_status_messages mqtt_data"
      "get_esp_logs serial_data" "[]"]
  by (simp add: correlate_data_def)

text \<open>A missing log file: the explicit result, and what the correlator makes of it.\<close>

lemma missing_serial_log: "analyze_serial_log None = Inl ''Serial log not found''"
  by (simp add: analyze_serial_log_def)

lemma missing_mqtt_log: "analyze_mqtt_log clk n None = (n, Inl ''MQTT log not found'')"
  by (simp add: analyze_mqtt_log_def)

lemma missing_mqtt_correlations:
  "correlate_command_responses clk n serial_file None = (n, Inr [])"
  by (simp add: correlate_command_responses_def missing_mqtt_log correlate_data_def
      get_commands_sent_def)

lemma device_matches_empty: "device_matches kw [] = []"
  by (simp add: device_matches_def)

lemma missing_serial_correlations:
  assumes "analyze_mqtt_log clk n mqtt_file = (n', mqtt_data)"
    and "\<forall>cmd \<in> set (get_commands_sent mqtt_data). split (payload cmd) \<noteq> []"
  shows "correlate_command_responses clk n None mqtt_file =
     (n', Inr (map (\<lambda>cmd. \<lparr>command = payload cmd, cmd_topic = topic cmd,
              mqtt_responses = bus_matches cmd (get_status_messages mqtt_data),
              serial_responses = []\<rparr>)
            (get_commands_sent mqtt_data)))"
  using assms(1) correlate_data_returns [OF assms(2), of "analyze_serial_log None"]
  by (simp add: correlate_command_responses_def missing_serial_log get_esp_logs_def
      device_matches_empty)

text \<open>
  Claim C6. The claim says that every command gets its correlation, also one without any
  match, and never an error. In the code the MQTT log \<open>mqtt_blank_command\<close> with an empty
  serial log has one command, whose payload is empty; there is no status message and no
  device record, so both selections are empty; and the correlator raises \<open>IndexError\<close>
  instead of returning the one correlation.
\<close>

theorem blank_command_no_correlation:
  "map_sum id commands_sent (snd (analyze_mqtt_log tick 0 (Some mqtt_blank_command))) =
     Inr [\<lparr>topic = ''wordclock/command'', payload = '''', mqtt_timestamp = ''T''\<rparr>]
   \<and> map_sum id status_messages (snd (analyze_mqtt_log tick 0 (Some mqtt_blank_command))) = Inr []
   \<and> map_sum id esp_logs (analyze_serial_log (Some [])) = Inr []
   \<and> correlate_command_responses tick 0 (Some []) (Some mqtt_blank_command) = (1, Inl IndexError)"
  by code_simp

text \<open>
  Claim C7. The claim says that with one log file missing the other summary and the
  correlations of the available stream are still produced. In the code the missing serial
  log gives its explicit result, and on the MQTT log \<open>mqtt_blank_command\<close> the correlator
  and the report then raise \<open>IndexError\<close>: no correlation and no document is produced.
\<close>

theorem missing_serial_blank_command:
  "analyze_serial_log None = Inl ''Serial log not found''
   \<and> correlate_command_responses tick 0 None (Some mqtt_blank_command) = (1, Inl IndexError)
   \<and> generate_report tick 0 None (Some mqtt_blank_command) = Inl IndexError"
  by code_simp

end
